theory Spec2Isabelle
  imports Main
begin

section \<open>Data model (shared/schema.ts)\<close>

text \<open>
  The two tables of the schema. Identifiers are \<open>varchar\<close> strings, timestamps are
  seconds on a clock, \<open>filesize\<close> is an integer column. A string is the list of the
  characters the code counts when it slices one. The columns called \<open>id\<close>
  are written \<open>user_id\<close> and \<open>doc_id\<close>, since \<open>id\<close> is the identity function of HOL;
  the users' timestamps carry the prefix \<open>user_\<close> to keep them apart from the documents'.
\<close>

type_synonym bytes = "nat list"

record user =
  user_id :: string
  email :: "string option"
  firstName :: "string option"
  lastName :: "string option"
  profileImageUrl :: "string option"
  passwordHash :: "string option"
  user_createdAt :: "nat option"
  user_updatedAt :: "nat option"

text \<open>\<open>UpsertUser\<close>, the insert type of the users table: every column may be left out.\<close>

record upsert_user =
  new_id :: "string option"
  new_email :: "string option"
  new_firstName :: "string option"
  new_lastName :: "string option"
  new_profileImageUrl :: "string option"
  new_passwordHash :: "string option"


text \<open>
  A value of a multipart text field as the upload handler reads it from \<open>req.body\<close>:
  a string, or an array or object (which the multipart parser builds when a key is
  repeated or bracketed). A missing key is \<open>None\<close> of the option type.
\<close>

datatype field = Text string | Structured

text \<open>
  The columns a caller supplies for a document. The handler builds them with the
  category as it came from the request (\<open>field document_fields\<close>); the insert schema
  validates them to \<open>InsertDocument\<close>, where the category is a string; a \<open>Document\<close> is
  an \<open>InsertDocument\<close> with the two columns the database fills in.
\<close>

record 'c document_fields =
  filename :: string
  originalFilename :: string
  filepath :: string
  filesize :: int
  mimetype :: string
  category :: 'c
  userId :: string

type_synonym insert_document = "string document_fields"

record document = "string document_fields" +
  doc_id :: string
  createdAt :: nat

section \<open>Asynchronous calls: results, exceptions and state\<close>

text \<open>
  What a handler can catch. \<open>ObjectNotFoundError\<close> is the class the download and
  preview handlers test with \<open>instanceof\<close>; \<open>ZodError\<close> is what the insert schema's
  \<open>parse\<close> throws; \<open>Exception\<close> is any other thrown value.
\<close>

datatype exn = ObjectNotFoundError | ZodError | Exception string

text \<open>
  An awaited call takes the state it works on and either resolves to a value or rejects
  with an exception; the state it leaves behind is returned in both cases.
\<close>

type_synonym ('a, 's) io = "'s \<Rightarrow> (exn + 'a) \<times> 's"

definition resolve :: "'a \<Rightarrow> ('a, 's) io" where
  "resolve x = (\<lambda>s. (Inr x, s))"

definition reject :: "exn \<Rightarrow> ('a, 's) io" where
  "reject e = (\<lambda>s. (Inl e, s))"

definition await :: "('a, 's) io \<Rightarrow> ('a \<Rightarrow> ('b, 's) io) \<Rightarrow> ('b, 's) io" where
  "await m f = (\<lambda>s. case m s of (Inl e, s') \<Rightarrow> (Inl e, s') | (Inr x, s') \<Rightarrow> f x s')"

definition try_catch :: "('a, 's) io \<Rightarrow> (exn \<Rightarrow> ('a, 's) io) \<Rightarrow> ('a, 's) io" where
  "try_catch m h = (\<lambda>s. case m s of (Inl e, s') \<Rightarrow> h e s' | (Inr x, s') \<Rightarrow> (Inr x, s'))"

text \<open>
  The server's state is the database together with the object store. A call into the
  storage layer works on the first component, a call into the object storage service on
  the second.
\<close>

definition on_db :: "('a, 'db) io \<Rightarrow> ('a, 'db \<times> 'os) io" where
  "on_db m = (\<lambda>(db, os). case m db of (r, db') \<Rightarrow> (r, (db', os)))"

definition on_os :: "('a, 'os) io \<Rightarrow> ('a, 'db \<times> 'os) io" where
  "on_os m = (\<lambda>(db, os). case m os of (r, os') \<Rightarrow> (r, (db, os')))"

section \<open>What the routes import\<close>

text \<open>
  \<open>objectFile\<close> is the handle \<open>getObjectEntityFile\<close> returns. Reading it gives a stream
  that either delivers all bytes or fails after having delivered some (none, when it
  fails before the first chunk).
\<close>

datatype objfile = File string

datatype stream_outcome = Stream_ok bytes | Stream_failed bytes

record acl_policy =
  owner :: string
  visibility :: string

text \<open>
  The modules \<open>./storage\<close>, \<open>./objectStorage\<close> and \<open>./objectAcl\<close>, the libraries
  \<open>bcrypt\<close> and \<open>path\<close>, the built-in \<open>encodeURIComponent\<close> and the environment's
  \<open>JWT_SECRET\<close> are parameters of the handlers: a handler is defined, and a property
  of the handler is proved, for every implementation of them.
\<close>

record ('db, 'os) services =
  getUser :: "string \<Rightarrow> (user option, 'db) io"
  getUserByEmail :: "string \<Rightarrow> (user option, 'db) io"
  upsertUser :: "upsert_user \<Rightarrow> (user, 'db) io"
  getDocumentsByUser :: "string \<Rightarrow> (document list, 'db) io"
  getDocument :: "string \<Rightarrow> (document option, 'db) io"
  createDocument :: "insert_document \<Rightarrow> (document, 'db) io"
  deleteDocument :: "string \<Rightarrow> (bool, 'db) io"
  uploadBuffer :: "bytes \<Rightarrow> string \<Rightarrow> string \<Rightarrow> (unit, 'os) io"
  getObjectEntityFile :: "string \<Rightarrow> (objfile, 'os) io"
  setObjectAclPolicy :: "objfile \<Rightarrow> acl_policy \<Rightarrow> (unit, 'os) io"
  deleteObject :: "string \<Rightarrow> (unit, 'os) io"
  createReadStream :: "objfile \<Rightarrow> 'os \<Rightarrow> stream_outcome"
  bcrypt_hash :: "string \<Rightarrow> nat \<Rightarrow> exn + string"
  bcrypt_compare :: "string \<Rightarrow> string \<Rightarrow> exn + bool"
  extname :: "string \<Rightarrow> string"
  encodeURIComponent :: "string \<Rightarrow> string"
  JWT_SECRET :: string

section \<open>Responses\<close>

datatype token = Token (signing_key: string) (token_userId: string) (token_email: string)
  (iat: nat) (exp: nat)

datatype body =
    Message string
  | User_json "user option"
  | Auth_json token user
  | Documents_json "document list"
  | Document_json document
  | Pdf_stream bytes bool

record response =
  status :: nat
  headers :: "(string \<times> string) list"
  body :: body

definition setHeader :: "string \<Rightarrow> string \<Rightarrow> (string \<times> string) list \<Rightarrow> (string \<times> string) list" where
  "setHeader name v hs = filter (\<lambda>h. fst h \<noteq> name) hs @ [(name, v)]"

text \<open>
  \<open>res.status(code).json(b)\<close> on a response whose headers so far are \<open>hs\<close>: the JSON
  content type is set unless a content type was set before, and sending the text adds the
  character set to the content type. The content types the handlers set themselves are
  media types without parameters.
\<close>

definition res_json :: "nat \<Rightarrow> (string \<times> string) list \<Rightarrow> body \<Rightarrow> response" where
  "res_json code hs b =
     \<lparr>status = code,
      headers =
        (case map_of hs ''Content-Type'' of
           None \<Rightarrow> setHeader ''Content-Type'' ''application/json; charset=utf-8'' hs
         | Some t \<Rightarrow> setHeader ''Content-Type'' (t @ ''; charset=utf-8'') hs),
      body = b\<rparr>"

section \<open>Authentication (server/jwtAuth.ts)\<close>

text \<open>
  A signed token is its payload together with the key it was signed with: verification
  succeeds when that key is the server's secret and the token has not expired.
  \<open>JWT_EXPIRY\<close> is \<open>"7d"\<close> in seconds.
\<close>

definition JWT_EXPIRY :: nat where
  "JWT_EXPIRY = 7 * 24 * 60 * 60"

definition generateToken :: "string \<Rightarrow> nat \<Rightarrow> string \<Rightarrow> string \<Rightarrow> token" where
  "generateToken secret now uid mail = Token secret uid mail now (now + JWT_EXPIRY)"

definition verifyToken :: "string \<Rightarrow> nat \<Rightarrow> token \<Rightarrow> token option" where
  "verifyToken secret now t =
     (if signing_key t = secret \<and> now < exp t then Some t else None)"

text \<open>
  The \<open>Authorization\<close> header, when present, either starts with \<open>"Bearer "\<close> and carries
  a token after it, or does not.
\<close>

datatype auth_header = Bearer token | Not_bearer string

record req_user =
  req_user_id :: string
  req_user_email :: string
  claims_sub :: string

definition isAuthenticated :: "string \<Rightarrow> nat \<Rightarrow> auth_header option \<Rightarrow> response + req_user" where
  "isAuthenticated secret now authHeader =
     (case authHeader of
        None \<Rightarrow> Inl (res_json 401 [] (Message ''Unauthorized''))
      | Some (Not_bearer h) \<Rightarrow> Inl (res_json 401 [] (Message ''Unauthorized''))
      | Some (Bearer t) \<Rightarrow>
          (case verifyToken secret now t of
             None \<Rightarrow> Inl (res_json 401 [] (Message ''Invalid or expired token''))
           | Some decoded \<Rightarrow>
               Inr \<lparr>req_user_id = token_userId decoded,
                    req_user_email = token_email decoded,
                    claims_sub = token_userId decoded\<rparr>))"

text \<open>
  The request bodies of signup and login. A field is falsy when it is missing or the
  empty string.
\<close>

record credentials =
  body_email :: "string option"
  body_password :: "string option"
  body_firstName :: "string option"
  body_lastName :: "string option"

definition falsy :: "string option \<Rightarrow> bool" where
  "falsy v = (v = None \<or> v = Some '''')"

definition or_empty :: "string option \<Rightarrow> string" where
  "or_empty v = (case v of None \<Rightarrow> '''' | Some s \<Rightarrow> s)"

definition lift :: "exn + 'a \<Rightarrow> ('a, 's) io" where
  "lift r = (\<lambda>s. (r, s))"

definition signup :: "('db, 'os) services \<Rightarrow> nat \<Rightarrow> credentials \<Rightarrow> (response, 'db \<times> 'os) io" where
  "signup S now b =
     try_catch
       (if falsy (body_email b) \<or> falsy (body_password b)
        then resolve (res_json 400 [] (Message ''Email and password required''))
        else
          await (on_db (getUserByEmail S (the (body_email b)))) (\<lambda>existing.
            if existing \<noteq> None
            then resolve (res_json 400 [] (Message ''User already exists''))
            else
              await (lift (bcrypt_hash S (the (body_password b)) 12)) (\<lambda>hash.
              await (on_db (upsertUser S
                       \<lparr>new_id = None,
                        new_email = body_email b,
                        new_firstName = Some (or_empty (body_firstName b)),
                        new_lastName = Some (or_empty (body_lastName b)),
                        new_profileImageUrl = None,
                        new_passwordHash = Some hash\<rparr>)) (\<lambda>usr.
              resolve (res_json 201 []
                (Auth_json (generateToken (JWT_SECRET S) now (user_id usr) (or_empty (email usr)))
                   usr))))))
       (\<lambda>error. resolve (res_json 500 [] (Message ''Signup failed'')))"

definition login :: "('db, 'os) services \<Rightarrow> nat \<Rightarrow> credentials \<Rightarrow> (response, 'db \<times> 'os) io" where
  "login S now b =
     try_catch
       (if falsy (body_email b) \<or> falsy (body_password b)
        then resolve (res_json 400 [] (Message ''Email and password required''))
        else
          await (on_db (getUserByEmail S (the (body_email b)))) (\<lambda>found.
            case found of
              None \<Rightarrow> resolve (res_json 401 [] (Message ''Invalid credentials''))
            | Some usr \<Rightarrow>
                if falsy (passwordHash usr)
                then resolve (res_json 401 [] (Message ''Invalid credentials''))
                else
                  await (lift (bcrypt_compare S (the (body_password b)) (the (passwordHash usr))))
                    (\<lambda>match.
                      if \<not> match
                      then resolve (res_json 401 [] (Message ''Invalid credentials''))
                      else resolve (res_json 200 []
                        (Auth_json
                           (generateToken (JWT_SECRET S) now (user_id usr) (or_empty (email usr)))
                           usr)))))
       (\<lambda>error. resolve (res_json 500 [] (Message ''Login failed'')))"

definition logout :: "(response, 's) io" where
  "logout = resolve (res_json 200 [] (Message ''Logged out successfully''))"

section \<open>Upload filter and limits (server/routes.ts)\<close>

text \<open>
  \<open>toLowerCase\<close> on the characters that matter for the comparison with \<open>".pdf"\<close>:
  the letters A to Z are mapped to a to z, every other character is kept.
\<close>

definition lower_char :: "char \<Rightarrow> char" where
  "lower_char c =
     (case map_of (zip ''ABCDEFGHIJKLMNOPQRSTUVWXYZ'' ''abcdefghijklmnopqrstuvwxyz'') c of
        Some l \<Rightarrow> l
      | None \<Rightarrow> c)"

definition toLowerCase :: "string \<Rightarrow> string" where
  "toLowerCase s = map lower_char s"

text \<open>
  A file part of the multipart request as the upload middleware presents it. Its \<open>size\<close>
  is the length of its contents.
\<close>

record multer_file =
  fieldname :: string
  originalname :: string
  file_mimetype :: string
  buffer :: bytes

definition size_of :: "multer_file \<Rightarrow> nat" where
  "size_of file = length (buffer file)"

text \<open>What reaches the error middleware: a \<open>MulterError\<close> with code and message, or a plain \<open>Error\<close>.\<close>

datatype err = MulterError string string | Error string

definition fileFilter :: "('db, 'os) services \<Rightarrow> multer_file \<Rightarrow> err + bool" where
  "fileFilter S file =
     (let ext = toLowerCase (extname S (originalname file))
      in if file_mimetype file = ''application/pdf'' \<and> ext = ''.pdf''
         then Inr True
         else Inl (Error ''Only PDF files are allowed''))"

definition fileSize_limit :: nat where
  "fileSize_limit = 10 * 1024 * 1024"

text \<open>
  \<open>upload.single("file")\<close>, the middleware the multipart library builds from the
  configuration above. A request without a file part goes on with \<open>req.file\<close>
  undefined, and so does one whose file part has an empty filename: the part is skipped.
  A file part under another field name is refused as unexpected. Otherwise the filter is
  asked first, before the contents are read; an accepted file is read into memory, and the
  reading is cut off, and the file refused, as soon as the number of bytes read reaches
  \<open>limits.fileSize\<close>: a file of exactly that size is refused like a larger one.
\<close>

definition upload_single :: "('db, 'os) services \<Rightarrow> string \<Rightarrow> multer_file option \<Rightarrow> err + multer_file option" where
  "upload_single S name part =
     (case part of
        None \<Rightarrow> Inr None
      | Some file \<Rightarrow>
          if originalname file = [] then Inr None
          else if fieldname file \<noteq> name
          then Inl (MulterError ''LIMIT_UNEXPECTED_FILE'' ''Unexpected field'')
          else (case fileFilter S file of
                  Inl e \<Rightarrow> Inl e
                | Inr accepted \<Rightarrow>
                    if \<not> accepted then Inr None
                    else if fileSize_limit \<le> size_of file
                    then Inl (MulterError ''LIMIT_FILE_SIZE'' ''File too large'')
                    else Inr (Some file)))"

text \<open>
  A route either answers or hands the error on to the next error handler, which is not
  part of the routes.
\<close>

datatype outcome = Responded response | Passed_on err

definition error_middleware :: "err \<Rightarrow> outcome" where
  "error_middleware e =
     (case e of
        MulterError code msg \<Rightarrow>
          if code = ''LIMIT_FILE_SIZE''
          then Responded (res_json 400 [] (Message ''File size must be less than 10MB''))
          else Responded (res_json 400 [] (Message msg))
      | Error msg \<Rightarrow>
          if msg = ''Only PDF files are allowed''
          then Responded (res_json 400 [] (Message msg))
          else Passed_on e)"

section \<open>Document handlers (server/routes.ts)\<close>

definition get_auth_user :: "('db, 'os) services \<Rightarrow> req_user \<Rightarrow> (response, 'db \<times> 'os) io" where
  "get_auth_user S u =
     try_catch
       (await (on_db (getUser S (claims_sub u))) (\<lambda>usr.
          resolve (res_json 200 [] (User_json usr))))
       (\<lambda>error. resolve (res_json 500 [] (Message ''Failed to fetch user'')))"

definition list_documents :: "('db, 'os) services \<Rightarrow> req_user \<Rightarrow> (response, 'db \<times> 'os) io" where
  "list_documents S u =
     try_catch
       (await (on_db (getDocumentsByUser S (claims_sub u))) (\<lambda>documents.
          resolve (res_json 200 [] (Documents_json documents))))
       (\<lambda>error. resolve (res_json 500 [] (Message ''Failed to fetch documents'')))"

text \<open>\<open>req.body.category || "other"\<close>: a missing or empty category falls back to \<open>"other"\<close>.\<close>

definition category_or_other :: "field option \<Rightarrow> field" where
  "category_or_other c =
     (case c of
        None \<Rightarrow> Text ''other''
      | Some (Text s) \<Rightarrow> (if s = [] then Text ''other'' else Text s)
      | Some Structured \<Rightarrow> Structured)"

text \<open>
  \<open>insertDocumentSchema.parse\<close>: the schema derived from the documents table without
  \<open>id\<close> and \<open>createdAt\<close>. Every text column must be a string and \<open>filesize\<close> an
  integer; of the values the handler passes, only the category can be anything else. The
  range of the integer column is not checked here: a file that has passed the upload
  middleware is smaller than \<open>limits.fileSize\<close> and so within it.
\<close>

definition insertDocumentSchema_parse :: "field document_fields \<Rightarrow> exn + insert_document" where
  "insertDocumentSchema_parse documentData =
     (case category documentData of
        Text c \<Rightarrow>
          Inr \<lparr>filename = filename documentData,
               originalFilename = originalFilename documentData,
               filepath = filepath documentData,
               filesize = filesize documentData,
               mimetype = mimetype documentData,
               category = c,
               userId = userId documentData\<rparr>
      | Structured \<Rightarrow> Inl ZodError)"

text \<open>
  The upload handler proper, after authentication and the upload middleware.
  \<open>objectId\<close> is the value \<open>randomUUID()\<close> returns in this request.
\<close>

definition documentData_of :: "req_user \<Rightarrow> multer_file \<Rightarrow> field option \<Rightarrow> string \<Rightarrow> field document_fields" where
  "documentData_of u file c objectId =
     \<lparr>filename = objectId @ ''.pdf'',
      originalFilename = take 255 (originalname file),
      filepath = ''uploads/'' @ objectId @ ''.pdf'',
      filesize = int (size_of file),
      mimetype = ''application/pdf'',
      category = category_or_other c,
      userId = claims_sub u\<rparr>"

definition upload_document :: "('db, 'os) services \<Rightarrow> req_user \<Rightarrow> multer_file option \<Rightarrow> field option \<Rightarrow> string \<Rightarrow> (response, 'db \<times> 'os) io" where
  "upload_document S u req_file c objectId =
     try_catch
       (case req_file of
          None \<Rightarrow> resolve (res_json 400 [] (Message ''No file uploaded''))
        | Some file \<Rightarrow>
            (let objectPath = ''uploads/'' @ objectId @ ''.pdf'' in
             await (on_os (uploadBuffer S (buffer file) objectPath ''application/pdf'')) (\<lambda>_.
             await (on_os (getObjectEntityFile S objectPath)) (\<lambda>objectFile.
             await (on_os (setObjectAclPolicy S objectFile
                      \<lparr>owner = claims_sub u, visibility = ''private''\<rparr>)) (\<lambda>_.
             await (lift (insertDocumentSchema_parse (documentData_of u file c objectId)))
               (\<lambda>validatedData.
             await (on_db (createDocument S validatedData)) (\<lambda>document.
             resolve (res_json 201 [] (Document_json document)))))))))
       (\<lambda>error. resolve (res_json 500 [] (Message ''Failed to upload document'')))"

text \<open>
  Piping the object's read stream into the response whose headers are \<open>hs\<close>. A stream
  that fails before anything was sent is answered with 500; once bytes have gone out the
  headers are sent and the response stays as it is, cut short.
\<close>

definition pipe_stream :: "('db, 'os) services \<Rightarrow> objfile \<Rightarrow> (string \<times> string) list \<Rightarrow> (response, 'db \<times> 'os) io" where
  "pipe_stream S objectFile hs =
     (\<lambda>(db, os).
        (case createReadStream S objectFile os of
           Stream_ok bs \<Rightarrow> (Inr \<lparr>status = 200, headers = hs, body = Pdf_stream bs True\<rparr>, (db, os))
         | Stream_failed bs \<Rightarrow>
             if bs = []
             then (Inr (res_json 500 hs (Message ''Error streaming file'')), (db, os))
             else (Inr \<lparr>status = 200, headers = hs, body = Pdf_stream bs False\<rparr>, (db, os))))"

definition attachment :: "('db, 'os) services \<Rightarrow> string \<Rightarrow> string" where
  "attachment S name =
     ''attachment; filename='' @ [CHR 0x22] @ encodeURIComponent S name @ [CHR 0x22]"

definition download_document :: "('db, 'os) services \<Rightarrow> req_user \<Rightarrow> string \<Rightarrow> (response, 'db \<times> 'os) io" where
  "download_document S u ident =
     try_catch
       (await (on_db (getDocument S ident)) (\<lambda>found.
          case found of
            None \<Rightarrow> resolve (res_json 404 [] (Message ''Document not found''))
          | Some document \<Rightarrow>
              if userId document \<noteq> claims_sub u
              then resolve (res_json 403 [] (Message ''Access denied''))
              else
                await (on_os (getObjectEntityFile S (filepath document))) (\<lambda>objectFile.
                  pipe_stream S objectFile
                    (setHeader ''Content-Disposition'' (attachment S (originalFilename document))
                       (setHeader ''Content-Type'' ''application/pdf'' [])))))
       (\<lambda>error.
          if error = ObjectNotFoundError
          then resolve (res_json 404 [] (Message ''File not found on server''))
          else resolve (res_json 500 [] (Message ''Failed to download document'')))"

definition preview_document :: "('db, 'os) services \<Rightarrow> req_user \<Rightarrow> string \<Rightarrow> (response, 'db \<times> 'os) io" where
  "preview_document S u ident =
     try_catch
       (await (on_db (getDocument S ident)) (\<lambda>found.
          case found of
            None \<Rightarrow> resolve (res_json 404 [] (Message ''Document not found''))
          | Some document \<Rightarrow>
              if userId document \<noteq> claims_sub u
              then resolve (res_json 403 [] (Message ''Access denied''))
              else
                await (on_os (getObjectEntityFile S (filepath document))) (\<lambda>objectFile.
                  pipe_stream S objectFile
                    (setHeader ''Content-Disposition'' ''inline''
                       (setHeader ''Content-Type'' ''application/pdf'' [])))))
       (\<lambda>error.
          if error = ObjectNotFoundError
          then resolve (res_json 404 [] (Message ''File not found on server''))
          else resolve (res_json 500 [] (Message ''Failed to preview document'')))"

definition delete_document :: "('db, 'os) services \<Rightarrow> req_user \<Rightarrow> string \<Rightarrow> (response, 'db \<times> 'os) io" where
  "delete_document S u ident =
     try_catch
       (await (on_db (getDocument S ident)) (\<lambda>found.
          case found of
            None \<Rightarrow> resolve (res_json 404 [] (Message ''Document not found''))
          | Some document \<Rightarrow>
              if userId document \<noteq> claims_sub u
              then resolve (res_json 403 [] (Message ''Access denied''))
              else
                await (on_os (deleteObject S (filepath document))) (\<lambda>_.
                await (on_db (deleteDocument S ident)) (\<lambda>deleted.
                  if deleted
                  then resolve (res_json 200 [] (Message ''Document deleted successfully''))
                  else resolve (res_json 500 [] (Message ''Failed to delete document''))))))
       (\<lambda>error. resolve (res_json 500 [] (Message ''Failed to delete document'')))"

section \<open>Routes\<close>

datatype endpoint =
    POST_signup credentials
  | POST_login credentials
  | GET_logout
  | GET_auth_user
  | GET_documents
  | POST_documents_upload "multer_file option" "field option" string
  | GET_documents_download string
  | GET_documents_preview string
  | DELETE_documents string

record request =
  authorization :: "auth_header option"
  now :: nat
  endpoint :: endpoint

text \<open>
  A handler that has caught everything answers; a rejection that escaped it would leave
  the request without an answer from the routes.
\<close>

definition answer :: "(response, 's) io \<Rightarrow> 's \<Rightarrow> outcome \<times> 's" where
  "answer h s =
     (case h s of
        (Inr r, s') \<Rightarrow> (Responded r, s')
      | (Inl e, s') \<Rightarrow> (Passed_on (Error ''unhandled rejection''), s'))"

definition authenticated :: "('db, 'os) services \<Rightarrow> request \<Rightarrow> (req_user \<Rightarrow> 's \<Rightarrow> outcome \<times> 's) \<Rightarrow> 's \<Rightarrow> outcome \<times> 's" where
  "authenticated S req h s =
     (case isAuthenticated (JWT_SECRET S) (now req) (authorization req) of
        Inl r \<Rightarrow> (Responded r, s)
      | Inr u \<Rightarrow> h u s)"

definition upload_route :: "('db, 'os) services \<Rightarrow> req_user \<Rightarrow> multer_file option \<Rightarrow> field option \<Rightarrow> string \<Rightarrow> 'db \<times> 'os \<Rightarrow> outcome \<times> ('db \<times> 'os)" where
  "upload_route S u part c objectId s =
     (case upload_single S ''file'' part of
        Inl e \<Rightarrow> (error_middleware e, s)
      | Inr req_file \<Rightarrow> answer (upload_document S u req_file c objectId) s)"

definition route :: "('db, 'os) services \<Rightarrow> request \<Rightarrow> 'db \<times> 'os \<Rightarrow> outcome \<times> ('db \<times> 'os)" where
  "route S req s =
     (case endpoint req of
        POST_signup b \<Rightarrow> answer (signup S (now req) b) s
      | POST_login b \<Rightarrow> answer (login S (now req) b) s
      | GET_logout \<Rightarrow> answer logout s
      | GET_auth_user \<Rightarrow> authenticated S req (\<lambda>u. answer (get_auth_user S u)) s
      | GET_documents \<Rightarrow> authenticated S req (\<lambda>u. answer (list_documents S u)) s
      | POST_documents_upload part c objectId \<Rightarrow>
          authenticated S req (\<lambda>u. upload_route S u part c objectId) s
      | GET_documents_download ident \<Rightarrow>
          authenticated S req (\<lambda>u. answer (download_document S u ident)) s
      | GET_documents_preview ident \<Rightarrow>
          authenticated S req (\<lambda>u. answer (preview_document S u ident)) s
      | DELETE_documents ident \<Rightarrow>
          authenticated S req (\<lambda>u. answer (delete_document S u ident)) s)"

section \<open>Client-side validation (client/src/components/UploadZone.tsx)\<close>

record client_file =
  file_type :: string
  file_size :: nat

definition MAX_FILE_SIZE :: nat where
  "MAX_FILE_SIZE = 10 * 1024 * 1024"

definition ACCEPTED_FILE_TYPE :: string where
  "ACCEPTED_FILE_TYPE = ''application/pdf''"

definition validateFile :: "client_file \<Rightarrow> string option" where
  "validateFile file =
     (if file_type file \<noteq> ACCEPTED_FILE_TYPE then Some ''Only PDF files are allowed''
      else if MAX_FILE_SIZE < file_size file then Some ''File size must be less than 10MB''
      else None)"

section \<open>The storage layer and the object store\<close>

text \<open>
  The database: the two tables, and how many identifiers its generator has handed out.
  \<open>gen\<close>, the sequence of values \<open>gen_random_uuid()\<close> yields, is a parameter of the
  operations that insert.
\<close>

record db =
  users :: "user list"
  documents :: "document list"
  generated :: nat
  db_now :: nat

definition storage_getUser :: "string \<Rightarrow> (user option, db) io" where
  \<comment> \<open>Modelled from the spec: \<open>storage.getUser\<close> of server/storage.ts, the user with this id.\<close>
  "storage_getUser ident = (\<lambda>d. (Inr (find (\<lambda>u. user_id u = ident) (users d)), d))"

definition storage_getUserByEmail :: "string \<Rightarrow> (user option, db) io" where
  \<comment> \<open>Modelled from the spec: \<open>storage.getUserByEmail\<close> of server/storage.ts, the user with this email.\<close>
  "storage_getUserByEmail mail = (\<lambda>d. (Inr (find (\<lambda>u. email u = Some mail) (users d)), d))"

definition merge_user :: "upsert_user \<Rightarrow> user \<Rightarrow> user" where
  "merge_user v u =
     u\<lparr>email := new_email v, firstName := new_firstName v, lastName := new_lastName v,
       profileImageUrl := new_profileImageUrl v, passwordHash := new_passwordHash v\<rparr>"

definition upsert_id :: "(nat \<Rightarrow> string) \<Rightarrow> upsert_user \<Rightarrow> db \<Rightarrow> string" where
  "upsert_id gen v d = (case new_id v of Some i \<Rightarrow> i | None \<Rightarrow> gen (generated d))"

definition storage_upsertUser :: "(nat \<Rightarrow> string) \<Rightarrow> upsert_user \<Rightarrow> (user, db) io" where
  \<comment> \<open>Modelled from the spec: \<open>storage.upsertUser\<close> of server/storage.ts. The row is inserted under
      the given id or a generated one; a row that has this id already is updated in place; an
      email another row holds is refused, as the unique column demands.\<close>
  "storage_upsertUser gen v =
     (\<lambda>d. let ident = upsert_id gen v d;
              d1 = (case new_id v of Some i \<Rightarrow> d | None \<Rightarrow> d\<lparr>generated := Suc (generated d)\<rparr>)
          in if new_email v \<noteq> None
                \<and> (\<exists>u \<in> set (users d). email u = new_email v \<and> user_id u \<noteq> ident)
             then (Inl (Exception ''duplicate key value violates unique constraint''), d1)
             else (case find (\<lambda>u. user_id u = ident) (users d) of
                     Some old \<Rightarrow>
                       (Inr (merge_user v old),
                        d1\<lparr>users := map (\<lambda>u. if user_id u = ident then merge_user v u else u) (users d)\<rparr>)
                   | None \<Rightarrow>
                       (let u = \<lparr>user_id = ident, email = new_email v, firstName = new_firstName v,
                                 lastName = new_lastName v, profileImageUrl = new_profileImageUrl v,
                                 passwordHash = new_passwordHash v,
                                 user_createdAt = Some (db_now d), user_updatedAt = Some (db_now d)\<rparr>
                        in (Inr u, d1\<lparr>users := users d @ [u]\<rparr>))))"

definition storage_getDocumentsByUser :: "string \<Rightarrow> (document list, db) io" where
  \<comment> \<open>Modelled from the spec: \<open>storage.getDocumentsByUser\<close> of server/storage.ts, the rows of this owner.\<close>
  "storage_getDocumentsByUser uid = (\<lambda>d. (Inr (filter (\<lambda>x. userId x = uid) (documents d)), d))"

definition storage_getDocument :: "string \<Rightarrow> (document option, db) io" where
  \<comment> \<open>Modelled from the spec: \<open>storage.getDocument\<close> of server/storage.ts, the row with this id.\<close>
  "storage_getDocument ident = (\<lambda>d. (Inr (find (\<lambda>x. doc_id x = ident) (documents d)), d))"

definition new_document :: "insert_document \<Rightarrow> string \<Rightarrow> nat \<Rightarrow> document" where
  "new_document v ident t =
     \<lparr>filename = filename v, originalFilename = originalFilename v, filepath = filepath v,
      filesize = filesize v, mimetype = mimetype v, category = category v, userId = userId v,
      doc_id = ident, createdAt = t\<rparr>"

definition storage_createDocument :: "(nat \<Rightarrow> string) \<Rightarrow> insert_document \<Rightarrow> (document, db) io" where
  \<comment> \<open>Modelled from the spec: \<open>storage.createDocument\<close> of server/storage.ts. The row gets a
      generated id and the current time; an id that is taken is refused, as the primary key
      demands.\<close>
  "storage_createDocument gen v =
     (\<lambda>d. let ident = gen (generated d); d1 = d\<lparr>generated := Suc (generated d)\<rparr>
          in if ident \<in> doc_id ` set (documents d)
             then (Inl (Exception ''duplicate key value violates unique constraint''), d1)
             else (Inr (new_document v ident (db_now d)),
                   d1\<lparr>documents := documents d @ [new_document v ident (db_now d)]\<rparr>))"

definition storage_deleteDocument :: "string \<Rightarrow> (bool, db) io" where
  \<comment> \<open>Modelled from the spec: \<open>storage.deleteDocument\<close> of server/storage.ts. The row with this id
      is removed; the result says whether there was one.\<close>
  "storage_deleteDocument ident =
     (\<lambda>d. (Inr (ident \<in> doc_id ` set (documents d)),
           d\<lparr>documents := filter (\<lambda>x. doc_id x \<noteq> ident) (documents d)\<rparr>))"

text \<open>The object store: the objects by path, each with contents, content type and policy.\<close>

record stored_object =
  data :: bytes
  contentType :: string
  acl :: "acl_policy option"

type_synonym object_store = "string \<Rightarrow> stored_object option"

definition store_uploadBuffer :: "bytes \<Rightarrow> string \<Rightarrow> string \<Rightarrow> (unit, object_store) io" where
  \<comment> \<open>Modelled from the spec: \<open>ObjectStorageService.uploadBuffer\<close> of server/objectStorage.ts,
      which writes the buffer at the path.\<close>
  "store_uploadBuffer buf path ctype =
     (\<lambda>os. (Inr (), os(path \<mapsto> \<lparr>data = buf, contentType = ctype, acl = None\<rparr>)))"

definition store_getObjectEntityFile :: "string \<Rightarrow> (objfile, object_store) io" where
  \<comment> \<open>Modelled from the spec: \<open>ObjectStorageService.getObjectEntityFile\<close> of
      server/objectStorage.ts, the handle of an object that exists.\<close>
  "store_getObjectEntityFile path =
     (\<lambda>os. if os path = None then (Inl ObjectNotFoundError, os) else (Inr (File path), os))"

definition store_setObjectAclPolicy :: "objfile \<Rightarrow> acl_policy \<Rightarrow> (unit, object_store) io" where
  \<comment> \<open>Modelled from the spec: \<open>setObjectAclPolicy\<close> of server/objectAcl.ts, which records the
      policy on an object that exists.\<close>
  "store_setObjectAclPolicy f policy =
     (\<lambda>os. case f of File path \<Rightarrow>
        (case os path of
           None \<Rightarrow> (Inl ObjectNotFoundError, os)
         | Some ob \<Rightarrow> (Inr (), os(path \<mapsto> ob\<lparr>acl := Some policy\<rparr>))))"

definition store_deleteObject :: "string \<Rightarrow> (unit, object_store) io" where
  \<comment> \<open>Modelled from the spec: \<open>ObjectStorageService.deleteObject\<close> of server/objectStorage.ts,
      which removes the object at the path.\<close>
  "store_deleteObject path = (\<lambda>os. (Inr (), os(path := None)))"

definition store_createReadStream :: "objfile \<Rightarrow> object_store \<Rightarrow> stream_outcome" where
  \<comment> \<open>Modelled from the spec: reading an object back gives the bytes that were stored.\<close>
  "store_createReadStream f os =
     (case f of File path \<Rightarrow>
        (case os path of None \<Rightarrow> Stream_failed [] | Some ob \<Rightarrow> Stream_ok (data ob)))"

text \<open>
  The platform functions, for running the handlers on examples: \<open>path.extname\<close> on
  POSIX paths, \<open>encodeURIComponent\<close>, which writes a character that is not unreserved
  as the escaped bytes of its UTF-8 encoding (one byte below 128, two from there on), and a
  \<open>bcrypt\<close> whose hash is a tagged copy of the password.
\<close>

definition basename :: "string \<Rightarrow> string" where
  "basename path =
     rev (takeWhile (\<lambda>c. c \<noteq> CHR ''/'') (dropWhile (\<lambda>c. c = CHR ''/'') (rev path)))"

definition path_extname :: "string \<Rightarrow> string" where
  "path_extname path =
     (let base = basename path;
          ext = CHR ''.'' # rev (takeWhile (\<lambda>c. c \<noteq> CHR ''.'') (rev base))
      in if CHR ''.'' \<notin> set base \<or> length ext = length base \<or> base = ''..'' then [] else ext)"

definition unreserved :: "char \<Rightarrow> bool" where
  "unreserved c =
     (let n = (of_char c :: nat)
      in (65 \<le> n \<and> n \<le> 90) \<or> (97 \<le> n \<and> n \<le> 122) \<or> (48 \<le> n \<and> n \<le> 57)
         \<or> c \<in> set ''-_.!~*'()'')"

definition hex_digit :: "nat \<Rightarrow> char" where
  "hex_digit n = ''0123456789ABCDEF'' ! (n mod 16)"

definition escaped :: "nat \<Rightarrow> string" where
  "escaped b = [CHR ''%'', hex_digit (b div 16), hex_digit b]"

definition percent_encode :: "char \<Rightarrow> string" where
  "percent_encode c =
     (let n = (of_char c :: nat)
      in if unreserved c then [c]
         else if n < 128 then escaped n
         else escaped (192 + n div 64) @ escaped (128 + n mod 64))"

definition uri_encode :: "string \<Rightarrow> string" where
  "uri_encode s = concat (map percent_encode s)"

definition tagged_hash :: "string \<Rightarrow> nat \<Rightarrow> exn + string" where
  "tagged_hash password rounds = Inr (''$2b$'' @ password)"

definition tagged_compare :: "string \<Rightarrow> string \<Rightarrow> exn + bool" where
  "tagged_compare password hash = Inr (hash = ''$2b$'' @ password)"

definition server :: "(nat \<Rightarrow> string) \<Rightarrow> string \<Rightarrow> (db, object_store) services" where
  "server gen secret =
     \<lparr>getUser = storage_getUser,
      getUserByEmail = storage_getUserByEmail,
      upsertUser = storage_upsertUser gen,
      getDocumentsByUser = storage_getDocumentsByUser,
      getDocument = storage_getDocument,
      createDocument = storage_createDocument gen,
      deleteDocument = storage_deleteDocument,
      uploadBuffer = store_uploadBuffer,
      getObjectEntityFile = store_getObjectEntityFile,
      setObjectAclPolicy = store_setObjectAclPolicy,
      deleteObject = store_deleteObject,
      createReadStream = store_createReadStream,
      bcrypt_hash = tagged_hash,
      bcrypt_compare = tagged_compare,
      extname = path_extname,
      encodeURIComponent = uri_encode,
      JWT_SECRET = secret\<rparr>"

section \<open>Runs of the server\<close>

text \<open>
  A fresh installation has empty tables and an empty object store. A run answers a list of
  requests one after the other; the database's clock shows the time of the request. Along
  with the state the run records the tokens the server has handed out, which are those in
  the answers of signup and login.
\<close>

definition installed :: "db \<times> object_store" where
  "installed = (\<lparr>users = [], documents = [], generated = 0, db_now = 0\<rparr>, Map.empty)"

definition issued_by :: "outcome \<Rightarrow> token list" where
  "issued_by out =
     (case out of
        Responded r \<Rightarrow> (case body r of Auth_json t u \<Rightarrow> [t] | _ \<Rightarrow> [])
      | Passed_on e \<Rightarrow> [])"

definition at_time :: "nat \<Rightarrow> db \<times> object_store \<Rightarrow> db \<times> object_store" where
  "at_time t s = ((fst s)\<lparr>db_now := t\<rparr>, snd s)"

fun run :: "(db, object_store) services \<Rightarrow> request list \<Rightarrow> token list \<times> (db \<times> object_store)
    \<Rightarrow> token list \<times> (db \<times> object_store)" where
  "run S [] c = c"
| "run S (req # reqs) (issued, s) =
     (case route S req (at_time (now req) s) of
        (out, s') \<Rightarrow> run S reqs (issued @ issued_by out, s'))"

text \<open>
  Signatures cannot be forged: a request presents a token signed with the server's secret
  only if the server has issued that token before. \<open>honest\<close> says so of every request
  of a run.
\<close>

definition presents_issued :: "string \<Rightarrow> token list \<Rightarrow> request \<Rightarrow> bool" where
  "presents_issued secret issued req =
     (case authorization req of
        Some (Bearer t) \<Rightarrow> signing_key t \<noteq> secret \<or> t \<in> set issued
      | _ \<Rightarrow> True)"

fun honest :: "(db, object_store) services \<Rightarrow> request list \<Rightarrow> token list \<times> (db \<times> object_store)
    \<Rightarrow> bool" where
  "honest S [] c = True"
| "honest S (req # reqs) (issued, s) =
     (presents_issued (JWT_SECRET S) issued req
      \<and> (case route S req (at_time (now req) s) of
           (out, s') \<Rightarrow> honest S reqs (issued @ issued_by out, s')))"

section \<open>A small installation, for examples\<close>

definition example_gen :: "nat \<Rightarrow> string" where
  "example_gen n = ''id-'' @ replicate n (CHR ''i'')"

definition example_server :: "(db, object_store) services" where
  "example_server = server example_gen ''s3cret''"

definition alice :: user where
  "alice = \<lparr>user_id = ''alice'', email = Some ''alice@example.org'', firstName = Some ''Alice'',
            lastName = Some ''A'', profileImageUrl = None, passwordHash = Some ''$2b$pw-a'',
            user_createdAt = Some 0, user_updatedAt = Some 0\<rparr>"

definition bob :: user where
  "bob = \<lparr>user_id = ''bob'', email = Some ''bob@example.org'', firstName = Some ''Bob'',
          lastName = Some ''B'', profileImageUrl = None, passwordHash = Some ''$2b$pw-b'',
          user_createdAt = Some 0, user_updatedAt = Some 0\<rparr>"

definition as_alice :: "auth_header option" where
  "as_alice = Some (Bearer (Token ''s3cret'' ''alice'' ''alice@example.org'' 0 604800))"

definition as_bob :: "auth_header option" where
  "as_bob = Some (Bearer (Token ''s3cret'' ''bob'' ''bob@example.org'' 0 604800))"

definition lab_results :: document where
  "lab_results =
     \<lparr>filename = ''f1.pdf'', originalFilename = ''lab results.pdf'', filepath = ''uploads/f1.pdf'',
      filesize = 4, mimetype = ''application/pdf'', category = ''test_result'', userId = ''alice'',
      doc_id = ''d1'', createdAt = 0\<rparr>"

definition referral_note :: document where
  "referral_note =
     \<lparr>filename = ''f3.pdf'', originalFilename = ''referral.pdf'', filepath = ''uploads/f3.pdf'',
      filesize = 5, mimetype = ''application/pdf'', category = ''referral'', userId = ''bob'',
      doc_id = ''d3'', createdAt = 20\<rparr>"

definition example_db :: db where
  "example_db =
     \<lparr>users = [alice, bob], documents = [lab_results, referral_note], generated = 0, db_now = 50\<rparr>"

definition example_store :: object_store where
  "example_store =
     [''uploads/f1.pdf'' \<mapsto>
        \<lparr>data = [37, 80, 68, 70], contentType = ''application/pdf'',
         acl = Some \<lparr>owner = ''alice'', visibility = ''private''\<rparr>\<rparr>,
      ''uploads/f3.pdf'' \<mapsto>
        \<lparr>data = [37, 80, 68, 70, 45], contentType = ''application/pdf'',
         acl = Some \<lparr>owner = ''bob'', visibility = ''private''\<rparr>\<rparr>]"

definition get :: "auth_header option \<Rightarrow> endpoint \<Rightarrow> request" where
  "get who e = \<lparr>authorization = who, now = 100, endpoint = e\<rparr>"

definition scan_pdf :: multer_file where
  "scan_pdf =
     \<lparr>fieldname = ''file'', originalname = ''scan.PDF'', file_mimetype = ''application/pdf'',
      buffer = [37, 80, 68, 70]\<rparr>"

definition big_notes :: multer_file where
  "big_notes =
     \<lparr>fieldname = ''file'', originalname = ''notes.txt'', file_mimetype = ''text/plain'',
      buffer = replicate (10 * 1024 * 1024 + 1) 0\<rparr>"

definition big_pdf :: multer_file where
  "big_pdf =
     \<lparr>fieldname = ''file'', originalname = ''scan.pdf'', file_mimetype = ''application/pdf'',
      buffer = replicate (10 * 1024 * 1024 + 1) 0\<rparr>"

definition scan_row :: "string \<Rightarrow> document" where
  "scan_row c =
     \<lparr>filename = ''o1.pdf'', originalFilename = ''scan.PDF'', filepath = ''uploads/o1.pdf'',
      filesize = 4, mimetype = ''application/pdf'', category = c, userId = ''alice'',
      doc_id = ''id-'', createdAt = 50\<rparr>"

definition upload_as :: "auth_header option \<Rightarrow> multer_file \<Rightarrow> field option \<Rightarrow> request" where
  "upload_as who file c = get who (POST_documents_upload (Some file) c ''o1'')"

definition disguised :: multer_file where
  "disguised =
     \<lparr>fieldname = ''file'', originalname = ''scan.pdf.exe'', file_mimetype = ''application/pdf'',
      buffer = [77, 90]\<rparr>"

text \<open>A run from a fresh installation: Carol signs up and uploads a scan with her token.\<close>

definition carol :: credentials where
  "carol = \<lparr>body_email = Some ''carol@example.org'', body_password = Some ''pw-c'',
             body_firstName = Some ''Carol'', body_lastName = None\<rparr>"

definition carol_run :: "request list" where
  "carol_run =
     [\<lparr>authorization = None, now = 10, endpoint = POST_signup carol\<rparr>,
      \<lparr>authorization = Some (Bearer (Token ''s3cret'' ''id-'' ''carol@example.org'' 10 604810)),
       now = 20, endpoint = POST_documents_upload (Some scan_pdf) None ''o1''\<rparr>]"

definition exact_pdf :: multer_file where
  "exact_pdf =
     \<lparr>fieldname = ''file'', originalname = ''scan.pdf'', file_mimetype = ''application/pdf'',
      buffer = replicate (10 * 1024 * 1024) 0\<rparr>"

text \<open>
  An installation that runs without \<open>JWT_SECRET\<close> in its environment signs and verifies
  with the fallback secret written in server/jwtAuth.ts. One request to it: an upload with
  a token signed with that secret for a user id no user has.
\<close>

definition fallback_secret :: string where
  "fallback_secret = ''your-secret-key-change-in-production''"

definition unconfigured_server :: "(db, object_store) services" where
  "unconfigured_server = server example_gen fallback_secret"

definition ghost_run :: "request list" where
  "ghost_run =
     [\<lparr>authorization = Some (Bearer (Token fallback_secret ''ghost'' ''ghost@example.org'' 0 604800)),
       now = 20, endpoint = POST_documents_upload (Some scan_pdf) None ''o1''\<rparr>]"

text \<open>The example installation with an object store that refuses every write.\<close>

definition broken_store :: "(db, object_store) services" where
  "broken_store =
     example_server\<lparr>uploadBuffer := \<lambda>buf path ctype. reject (Exception ''upload failed'')\<rparr>"

section \<open>Unfolding the definitions\<close>

lemmas io_defs = resolve_def reject_def await_def try_catch_def on_db_def on_os_def lift_def
  answer_def

lemmas handler_defs = route_def authenticated_def isAuthenticated_def verifyToken_def
  upload_route_def upload_single_def fileFilter_def error_middleware_def
  signup_def login_def logout_def get_auth_user_def list_documents_def upload_document_def
  download_document_def preview_document_def delete_document_def pipe_stream_def
  setHeader_def res_json_def attachment_def documentData_of_def insertDocumentSchema_parse_def
  category_or_other_def generateToken_def falsy_def or_empty_def size_of_def fileSize_limit_def

lemmas server_defs = server_def storage_getUser_def storage_getUserByEmail_def
  storage_upsertUser_def upsert_id_def storage_getDocumentsByUser_def storage_getDocument_def
  storage_createDocument_def storage_deleteDocument_def store_uploadBuffer_def
  store_getObjectEntityFile_def store_setObjectAclPolicy_def store_deleteObject_def
  store_createReadStream_def

lemmas platform_defs = path_extname_def basename_def toLowerCase_def lower_char_def
  uri_encode_def percent_encode_def escaped_def unreserved_def hex_digit_def tagged_hash_def
  tagged_compare_def

lemmas example_defs = example_server_def example_db_def example_store_def alice_def bob_def
  as_alice_def as_bob_def lab_results_def referral_note_def get_def example_gen_def
  scan_pdf_def big_notes_def big_pdf_def broken_store_def scan_row_def upload_as_def
  disguised_def carol_def carol_run_def exact_pdf_def fallback_secret_def
  unconfigured_server_def ghost_run_def

lemma endpoint_get: "endpoint (get who e) = e"
  by (simp add: get_def)

lemma alice_in:
  "isAuthenticated (JWT_SECRET example_server) (now (get as_alice e)) (authorization (get as_alice e))
     = Inr \<lparr>req_user_id = ''alice'', req_user_email = ''alice@example.org'', claims_sub = ''alice''\<rparr>"
  by (simp add: isAuthenticated_def verifyToken_def example_defs server_defs)


section \<open>Download requires ownership\<close>




section \<open>Listing shows the requester's documents only\<close>

lemma list_route:
  "isAuthenticated (JWT_SECRET S) (now req) (authorization req) = Inr u \<Longrightarrow>
   endpoint req = GET_documents \<Longrightarrow>
   route S req s = answer (list_documents S u) s"
  by (simp add: route_def authenticated_def)

lemma delete_route:
  "isAuthenticated (JWT_SECRET S) (now req) (authorization req) = Inr u \<Longrightarrow>
   endpoint req = DELETE_documents ident \<Longrightarrow>
   route S req s = answer (delete_document S u ident) s"
  by (simp add: route_def authenticated_def)

lemma JWT_SECRET_server: "JWT_SECRET (server gen secret) = secret"
  by (simp add: server_def)

lemma isAuthenticated_bearer:
  "isAuthenticated secret t h = Inr u \<Longrightarrow>
   \<exists>tok. h = Some (Bearer tok) \<and> signing_key tok = secret \<and> t < exp tok
      \<and> claims_sub u = token_userId tok"
  by (auto simp: isAuthenticated_def verifyToken_def
           split: option.splits auth_header.splits if_splits)

lemma list_documents_server:
  "answer (list_documents (server gen secret) u) (d, os)
     = (Responded (res_json 200 [] (Documents_json (filter (\<lambda>x. userId x = claims_sub u) (documents d)))),
        (d, os))"
  by (simp add: list_documents_def io_defs server_defs)

text \<open>
  C2. A listing request that passes authentication with the bearer token \<open>tok\<close> is
  answered with status 200 and a list that holds exactly the rows of the documents table
  whose \<open>userId\<close> is the user id of the token, each as often as the table holds it; so
  no document of another user appears. The state is left as it was. The storage layer is
  the one modelled above.
\<close>

theorem list_documents_own_only:
  assumes auth: "isAuthenticated secret (now req) (authorization req) = Inr u"
    and ep: "endpoint req = GET_documents"
  shows "\<exists>docs tok. authorization req = Some (Bearer tok) \<and> claims_sub u = token_userId tok
           \<and> route (server gen secret) req (d, os)
               = (Responded (res_json 200 [] (Documents_json docs)), (d, os))
           \<and> docs = filter (\<lambda>x. userId x = token_userId tok) (documents d)
           \<and> set docs = {x \<in> set (documents d). userId x = token_userId tok}"
proof -
  from isAuthenticated_bearer [OF auth] obtain tok where
    t: "authorization req = Some (Bearer tok)" "claims_sub u = token_userId tok"
    by blast
  have "route (server gen secret) req (d, os) = answer (list_documents (server gen secret) u) (d, os)"
    using auth ep by (simp add: list_route JWT_SECRET_server)
  with t show ?thesis
    by (simp add: list_documents_server)
qed

lemma alice_is:
  "isAuthenticated ''s3cret'' (now (get as_alice e)) (authorization (get as_alice e))
     = Inr \<lparr>req_user_id = ''alice'', req_user_email = ''alice@example.org'', claims_sub = ''alice''\<rparr>"
  using alice_in [of e] by (simp add: example_server_def server_def)

text \<open>On the example installation Alice is shown her document and not Bob's.\<close>

theorem list_documents_own_only_witness:
  "route example_server (get as_alice GET_documents) (example_db, example_store)
     = (Responded (res_json 200 [] (Documents_json [lab_results])), (example_db, example_store))"
proof -
  from list_documents_own_only [OF alice_is endpoint_get, of example_gen example_db example_store]
  obtain docs tok where
    t: "authorization (get as_alice GET_documents) = Some (Bearer tok)"
    and r: "route (server example_gen ''s3cret'') (get as_alice GET_documents) (example_db, example_store)
              = (Responded (res_json 200 [] (Documents_json docs)), (example_db, example_store))"
    and f: "docs = filter (\<lambda>x. userId x = token_userId tok) (documents example_db)"
    by blast
  from t have "token_userId tok = ''alice''"
    by (auto simp: get_def as_alice_def)
  with f have "docs = [lab_results]"
    by (simp add: example_db_def lab_results_def referral_note_def)
  with r show ?thesis
    by (simp add: example_server_def)
qed

section \<open>Deleting removes the row and the object\<close>

lemma find_doc_Some:
  "find (\<lambda>x. doc_id x = ident) xs = Some doc \<Longrightarrow> doc \<in> set xs \<and> doc_id doc = ident"
  by (induction xs) (auto split: if_splits)

lemma delete_document_server:
  "answer (delete_document (server gen secret) u ident) (d, os) =
     (case find (\<lambda>x. doc_id x = ident) (documents d) of
        None \<Rightarrow> (Responded (res_json 404 [] (Message ''Document not found'')), (d, os))
      | Some doc \<Rightarrow>
          if userId doc \<noteq> claims_sub u
          then (Responded (res_json 403 [] (Message ''Access denied'')), (d, os))
          else (Responded (res_json 200 [] (Message ''Document deleted successfully'')),
                (d\<lparr>documents := filter (\<lambda>x. doc_id x \<noteq> ident) (documents d)\<rparr>,
                 os(filepath doc := None))))"
proof (cases "find (\<lambda>x. doc_id x = ident) (documents d)")
  case None
  then show ?thesis
    by (simp add: delete_document_def io_defs server_defs)
next
  case (Some doc)
  then have "ident \<in> doc_id ` set (documents d)"
    using find_doc_Some by force
  with Some show ?thesis
    by (simp add: delete_document_def io_defs server_defs)
qed

text \<open>
  C3. A delete request of an authenticated user for the id \<open>ident\<close>, on the storage
  layer and object store modelled above. When the document exists and the requester owns
  it, the answer is 200. Whenever the answer is 200, the document existed and was the
  requester's, the object at its \<open>filepath\<close> is gone from the object store, no row with
  this id is left in the documents table, and a listing requested next, by whichever
  user, does not show the document.
\<close>

theorem delete_removes_row_and_object:
  assumes auth: "isAuthenticated secret (now req) (authorization req) = Inr u"
    and ep: "endpoint req = DELETE_documents ident"
    and out: "route (server gen secret) req (d, os) = (out, (d', os'))"
  shows "(\<forall>doc. find (\<lambda>x. doc_id x = ident) (documents d) = Some doc \<and> userId doc = claims_sub u \<longrightarrow>
            out = Responded (res_json 200 [] (Message ''Document deleted successfully'')))
       \<and> (\<forall>r. out = Responded r \<and> status r = 200 \<longrightarrow>
            (\<exists>doc. find (\<lambda>x. doc_id x = ident) (documents d) = Some doc
               \<and> userId doc = claims_sub u
               \<and> os' (filepath doc) = None
               \<and> documents d' = filter (\<lambda>x. doc_id x \<noteq> ident) (documents d)
               \<and> doc \<notin> set (documents d')
               \<and> ident \<notin> doc_id ` set (documents d')
               \<and> (\<forall>req2 u2. isAuthenticated secret (now req2) (authorization req2) = Inr u2
                     \<and> endpoint req2 = GET_documents \<longrightarrow>
                   (\<exists>docs. route (server gen secret) req2 (d', os')
                        = (Responded (res_json 200 [] (Documents_json docs)), (d', os'))
                      \<and> doc \<notin> set docs \<and> ident \<notin> doc_id ` set docs))))"
proof -
  have r: "route (server gen secret) req (d, os) = answer (delete_document (server gen secret) u ident) (d, os)"
    using auth ep by (simp add: delete_route JWT_SECRET_server)
  have l: "\<And>req2 u2. isAuthenticated secret (now req2) (authorization req2) = Inr u2 \<Longrightarrow>
      endpoint req2 = GET_documents \<Longrightarrow>
      route (server gen secret) req2 (d', os')
        = (Responded (res_json 200 [] (Documents_json (filter (\<lambda>x. userId x = claims_sub u2) (documents d')))), (d', os'))"
    by (simp add: list_route JWT_SECRET_server list_documents_server)
  show ?thesis
    using out unfolding r delete_document_server
    by (auto simp: l res_json_def split: option.splits if_splits dest: find_doc_Some)
qed


text \<open>
  On the example installation Alice deletes her document: the answer is 200, Bob's row is
  the only one left and the object is gone.
\<close>

theorem delete_removes_row_and_object_witness:
  "fst (route example_server (get as_alice (DELETE_documents ''d1'')) (example_db, example_store))
     = Responded (res_json 200 [] (Message ''Document deleted successfully''))
   \<and> documents (fst (snd (route example_server (get as_alice (DELETE_documents ''d1''))
        (example_db, example_store)))) = [referral_note]
   \<and> snd (snd (route example_server (get as_alice (DELETE_documents ''d1''))
        (example_db, example_store))) ''uploads/f1.pdf'' = None"
proof -
  obtain out d' os' where
    r: "route (server example_gen ''s3cret'') (get as_alice (DELETE_documents ''d1''))
          (example_db, example_store) = (out, (d', os'))"
    by (metis surj_pair)
  note main = delete_removes_row_and_object [OF alice_is endpoint_get r]
  have f: "find (\<lambda>x. doc_id x = ''d1'') (documents example_db) = Some lab_results"
    by (simp add: example_db_def lab_results_def)
  have o: "userId lab_results = ''alice''" "filepath lab_results = ''uploads/f1.pdf''"
    by (simp_all add: lab_results_def)
  from main f o have out: "out = Responded (res_json 200 [] (Message ''Document deleted successfully''))"
    by simp
  then have "status (res_json 200 [] (Message ''Document deleted successfully'')) = 200"
    by (simp add: res_json_def)
  with main out f o have "os' ''uploads/f1.pdf'' = None"
    and "documents d' = filter (\<lambda>x. doc_id x \<noteq> ''d1'') (documents example_db)"
    by auto
  then have "os' ''uploads/f1.pdf'' = None" and "documents d' = [referral_note]"
    by (simp_all add: example_db_def lab_results_def referral_note_def)
  with out r show ?thesis
    by (simp add: example_server_def)
qed

section \<open>Upload: the PDF filter\<close>

lemma upload_route_eq:
  "isAuthenticated (JWT_SECRET S) (now req) (authorization req) = Inr u \<Longrightarrow>
   endpoint req = POST_documents_upload part c objectId \<Longrightarrow>
   route S req s = upload_route S u part c objectId s"
  by (simp add: route_def authenticated_def)

lemma upload_document_created:
  fixes S :: "('db, 'os) services"
  assumes "uploadBuffer S (buffer file) (''uploads/'' @ objectId @ ''.pdf'') ''application/pdf'' os
             = (Inr (), os1)"
    and "getObjectEntityFile S (''uploads/'' @ objectId @ ''.pdf'') os1 = (Inr f, os2)"
    and "setObjectAclPolicy S f \<lparr>owner = claims_sub u, visibility = ''private''\<rparr> os2 = (Inr (), os3)"
    and "insertDocumentSchema_parse (documentData_of u file c objectId) = Inr v"
    and "createDocument S v d = (Inr document, d')"
  shows "answer (upload_document S u (Some file) c objectId) (d, os)
           = (Responded (res_json 201 [] (Document_json document)), (d', os3))"
  using assms by (simp add: upload_document_def io_defs Let_def)

lemma alice_uploads:
  "isAuthenticated (JWT_SECRET example_server) (now (upload_as as_alice file c))
     (authorization (upload_as as_alice file c))
     = Inr \<lparr>req_user_id = ''alice'', req_user_email = ''alice@example.org'', claims_sub = ''alice''\<rparr>"
  unfolding upload_as_def by (rule alice_in)

lemma alice_uploads_broken:
  "isAuthenticated (JWT_SECRET broken_store) (now (upload_as as_alice file c))
     (authorization (upload_as as_alice file c))
     = Inr \<lparr>req_user_id = ''alice'', req_user_email = ''alice@example.org'', claims_sub = ''alice''\<rparr>"
  by (simp add: isAuthenticated_def verifyToken_def example_defs server_defs)

lemma endpoint_upload_as:
  "endpoint (upload_as who file c) = POST_documents_upload (Some file) c ''o1''"
  by (simp add: upload_as_def get_def)

text \<open>
  C4, as amended. An upload request of an authenticated user whose file has a filename and
  comes in the form field \<open>file\<close>, whatever the storage layer and the object store are. A
  file whose MIME type is \<open>application/pdf\<close>, whose extension in lower case is \<open>.pdf\<close>
  and whose size is below the limit of 10 * 1024 * 1024 bytes is accepted by the upload
  middleware; and when the object-store write, the lookup of the object, the ACL update,
  the schema validation and the insert all succeed, the answer is 201 with the created
  document. A file that fails the PDF check is answered with 400 and the message
  \<open>Only PDF files are allowed\<close>, and the state is left as it was, so no document is
  created.
\<close>

theorem upload_pdf_only:
  fixes S :: "('db, 'os) services"
  assumes auth: "isAuthenticated (JWT_SECRET S) (now req) (authorization req) = Inr u"
    and ep: "endpoint req = POST_documents_upload (Some file) c objectId"
    and field: "fieldname file = ''file''"
    and named: "originalname file \<noteq> []"
  shows "(file_mimetype file = ''application/pdf''
            \<and> toLowerCase (extname S (originalname file)) = ''.pdf''
            \<and> size_of file < 10 * 1024 * 1024 \<longrightarrow>
          upload_single S ''file'' (Some file) = Inr (Some file)
          \<and> (\<forall>os1 f os2 os3 v document d'.
               uploadBuffer S (buffer file) (''uploads/'' @ objectId @ ''.pdf'') ''application/pdf'' os
                 = (Inr (), os1)
               \<and> getObjectEntityFile S (''uploads/'' @ objectId @ ''.pdf'') os1 = (Inr f, os2)
               \<and> setObjectAclPolicy S f \<lparr>owner = claims_sub u, visibility = ''private''\<rparr> os2
                    = (Inr (), os3)
               \<and> insertDocumentSchema_parse (documentData_of u file c objectId) = Inr v
               \<and> createDocument S v d = (Inr document, d') \<longrightarrow>
               route S req (d, os)
                 = (Responded (res_json 201 [] (Document_json document)), (d', os3))))
       \<and> (\<not> (file_mimetype file = ''application/pdf''
               \<and> toLowerCase (extname S (originalname file)) = ''.pdf'') \<longrightarrow>
          route S req (d, os)
            = (Responded (res_json 400 [] (Message ''Only PDF files are allowed'')), (d, os)))"
proof -
  have r: "route S req (d, os) = upload_route S u (Some file) c objectId (d, os)"
    using auth ep by (rule upload_route_eq)
  show ?thesis
    unfolding r using field named
    by (auto simp: upload_route_def upload_single_def fileFilter_def error_middleware_def
          fileSize_limit_def upload_document_created)
qed

text \<open>
  On the example installation Alice uploads a scanned PDF, which is stored, and a file
  with a PDF content type and the wrong extension, which is refused.
\<close>

theorem upload_pdf_only_witness:
  "route example_server (upload_as as_alice scan_pdf (Some (Text ''prescription'')))
       (example_db, example_store)
     = (Responded (res_json 201 [] (Document_json (scan_row ''prescription''))),
        (example_db\<lparr>documents := [lab_results, referral_note, scan_row ''prescription''],
                     generated := 1\<rparr>,
         example_store(''uploads/o1.pdf'' \<mapsto>
           \<lparr>data = [37, 80, 68, 70], contentType = ''application/pdf'',
            acl = Some \<lparr>owner = ''alice'', visibility = ''private''\<rparr>\<rparr>)))
   \<and> route example_server (upload_as as_alice disguised None) (example_db, example_store)
     = (Responded (res_json 400 [] (Message ''Only PDF files are allowed'')),
        (example_db, example_store))"
proof -
  let ?u = "\<lparr>req_user_id = ''alice'', req_user_email = ''alice@example.org'', claims_sub = ''alice''\<rparr>"
  let ?c = "Some (Text ''prescription'')"
  let ?os1 = "example_store(''uploads/o1.pdf'' \<mapsto>
           \<lparr>data = [37, 80, 68, 70], contentType = ''application/pdf'', acl = None\<rparr>)"
  let ?os3 = "example_store(''uploads/o1.pdf'' \<mapsto>
           \<lparr>data = [37, 80, 68, 70], contentType = ''application/pdf'',
            acl = Some \<lparr>owner = ''alice'', visibility = ''private''\<rparr>\<rparr>)"
  let ?v = "\<lparr>filename = ''o1.pdf'', originalFilename = ''scan.PDF'', filepath = ''uploads/o1.pdf'',
      filesize = 4, mimetype = ''application/pdf'', category = ''prescription'', userId = ''alice''\<rparr>"
  let ?d' = "example_db\<lparr>documents := [lab_results, referral_note, scan_row ''prescription''],
                     generated := 1\<rparr>"
  have pdf: "file_mimetype scan_pdf = ''application/pdf''
      \<and> toLowerCase (extname example_server (originalname scan_pdf)) = ''.pdf''
      \<and> size_of scan_pdf < 10 * 1024 * 1024"
    by (simp add: example_defs server_defs platform_defs size_of_def)
  have steps:
    "uploadBuffer example_server (buffer scan_pdf) (''uploads/'' @ ''o1'' @ ''.pdf'') ''application/pdf''
        example_store = (Inr (), ?os1)
     \<and> getObjectEntityFile example_server (''uploads/'' @ ''o1'' @ ''.pdf'') ?os1
        = (Inr (File ''uploads/o1.pdf''), ?os1)
     \<and> setObjectAclPolicy example_server (File ''uploads/o1.pdf'')
          \<lparr>owner = claims_sub ?u, visibility = ''private''\<rparr> ?os1 = (Inr (), ?os3)
     \<and> insertDocumentSchema_parse (documentData_of ?u scan_pdf ?c ''o1'') = Inr ?v
     \<and> createDocument example_server ?v example_db = (Inr (scan_row ''prescription''), ?d')"
    by (simp add: handler_defs example_defs server_defs new_document_def Let_def)
  have exe: "\<not> (file_mimetype disguised = ''application/pdf''
      \<and> toLowerCase (extname example_server (originalname disguised)) = ''.pdf'')"
    by (simp add: example_defs server_defs platform_defs)
  have n1: "fieldname scan_pdf = ''file''" "originalname scan_pdf \<noteq> []"
    and n2: "fieldname disguised = ''file''" "originalname disguised \<noteq> []"
    by (simp_all add: scan_pdf_def disguised_def)
  note a = upload_pdf_only [OF alice_uploads endpoint_upload_as n1,
      THEN conjunct1, rule_format, OF pdf, THEN conjunct2, rule_format, OF steps]
  note b = upload_pdf_only [OF alice_uploads endpoint_upload_as n2,
      THEN conjunct2, rule_format, OF exe]
  from a b show ?thesis
    by simp
qed

text \<open>
  C4 as it was stated, for every upload request, fails: the same scanned PDF, below the
  limit, is answered with 401 when the request carries no token, and with 500 when the
  object store refuses the write; neither creates a document.
\<close>

theorem upload_pdf_only_counterexample:
  "file_mimetype scan_pdf = ''application/pdf''
   \<and> toLowerCase (extname example_server (originalname scan_pdf)) = ''.pdf''
   \<and> size_of scan_pdf < 10 * 1024 * 1024
   \<and> route example_server (upload_as None scan_pdf None) (example_db, example_store)
       = (Responded (res_json 401 [] (Message ''Unauthorized'')), (example_db, example_store))
   \<and> route broken_store (upload_as as_alice scan_pdf None) (example_db, example_store)
       = (Responded (res_json 500 [] (Message ''Failed to upload document'')),
          (example_db, example_store))"
  by (simp add: handler_defs io_defs example_defs server_defs platform_defs Let_def)

section \<open>Upload: a failed write creates no document\<close>

text \<open>
  C5. An upload request of an authenticated user whose file passed the upload middleware,
  whatever the storage layer and the object store are. When the write of the buffer to the
  object store rejects, the answer is 500 with the message \<open>Failed to upload document\<close>
  and the database is the one the request started from: no row was inserted. So the
  database is changed only by a request whose write to the object store succeeded.
\<close>

theorem upload_store_failure_leaves_db:
  fixes S :: "('db, 'os) services"
  assumes auth: "isAuthenticated (JWT_SECRET S) (now req) (authorization req) = Inr u"
    and ep: "endpoint req = POST_documents_upload part c objectId"
    and got: "upload_single S ''file'' part = Inr (Some file)"
    and out: "route S req (d, os) = (out, (d', os'))"
  shows "(\<forall>e os1. uploadBuffer S (buffer file) (''uploads/'' @ objectId @ ''.pdf'')
                    ''application/pdf'' os = (Inl e, os1) \<longrightarrow>
            out = Responded (res_json 500 [] (Message ''Failed to upload document''))
            \<and> d' = d \<and> os' = os1)
       \<and> (d' \<noteq> d \<longrightarrow>
            (\<exists>os1. uploadBuffer S (buffer file) (''uploads/'' @ objectId @ ''.pdf'')
                     ''application/pdf'' os = (Inr (), os1)))"
proof -
  have failed: "out = Responded (res_json 500 [] (Message ''Failed to upload document''))
      \<and> d' = d \<and> os' = os1"
    if "uploadBuffer S (buffer file) (''uploads/'' @ objectId @ ''.pdf'') ''application/pdf'' os
          = (Inl e, os1)" for e os1
    using got out that unfolding upload_route_eq [OF auth ep]
    by (simp add: upload_route_def upload_document_def io_defs Let_def)
  obtain w os1 where w:
    "uploadBuffer S (buffer file) (''uploads/'' @ objectId @ ''.pdf'') ''application/pdf'' os
       = (w, os1)"
    by (metis surj_pair)
  have "d' \<noteq> d \<longrightarrow>
      (\<exists>os1. uploadBuffer S (buffer file) (''uploads/'' @ objectId @ ''.pdf'')
               ''application/pdf'' os = (Inr (), os1))"
  proof (cases w)
    case (Inl e)
    with w failed show ?thesis by simp
  next
    case (Inr x)
    with w show ?thesis by simp
  qed
  with failed show ?thesis
    by blast
qed

text \<open>On the installation whose object store refuses writes, Alice's upload changes nothing.\<close>

theorem upload_store_failure_leaves_db_witness:
  "route broken_store (upload_as as_alice scan_pdf None) (example_db, example_store)
     = (Responded (res_json 500 [] (Message ''Failed to upload document'')),
        (example_db, example_store))"
proof -
  obtain out d' os' where r:
    "route broken_store (upload_as as_alice scan_pdf None) (example_db, example_store)
       = (out, (d', os'))"
    by (metis surj_pair)
  have got: "upload_single broken_store ''file'' (Some scan_pdf) = Inr (Some scan_pdf)"
    by (simp add: handler_defs example_defs server_defs platform_defs)
  have fail: "uploadBuffer broken_store (buffer scan_pdf) (''uploads/'' @ ''o1'' @ ''.pdf'')
      ''application/pdf'' example_store = (Inl (Exception ''upload failed''), example_store)"
    by (simp add: broken_store_def reject_def)
  from upload_store_failure_leaves_db [OF alice_uploads_broken endpoint_upload_as got r] fail
  have "out = Responded (res_json 500 [] (Message ''Failed to upload document''))
      \<and> d' = example_db \<and> os' = example_store"
    by blast
  with r show ?thesis
    by simp
qed

section \<open>Upload: the size limit\<close>

text \<open>
  C9, as amended. An upload request of an authenticated user whose file has a filename and
  comes in the form field \<open>file\<close>, whatever the storage layer and the object store are.
  When the file passes the PDF filter and has 10 * 1024 * 1024 bytes or more, the answer is
  400 with the message \<open>File size must be less than 10MB\<close> and the state is left as it
  was; when it passes the filter and is smaller than that, it passes the upload middleware
  and is handed to the upload handler. When the file fails the PDF filter, the answer is 400
  with the message \<open>Only PDF files are allowed\<close>, whatever its size. The client's check
  draws the line one byte later: a file of type \<open>application/pdf\<close> is refused there, with
  the message of the size check, exactly when it is larger than 10 * 1024 * 1024 bytes.
\<close>

theorem upload_size_limit:
  fixes S :: "('db, 'os) services"
  assumes auth: "isAuthenticated (JWT_SECRET S) (now req) (authorization req) = Inr u"
    and ep: "endpoint req = POST_documents_upload (Some file) c objectId"
    and field: "fieldname file = ''file''"
    and named: "originalname file \<noteq> []"
  shows "(fileFilter S file = Inr True \<and> 10 * 1024 * 1024 \<le> size_of file \<longrightarrow>
            route S req s
              = (Responded (res_json 400 [] (Message ''File size must be less than 10MB'')), s))
       \<and> (fileFilter S file = Inr True \<and> size_of file < 10 * 1024 * 1024 \<longrightarrow>
            upload_single S ''file'' (Some file) = Inr (Some file)
            \<and> route S req s = answer (upload_document S u (Some file) c objectId) s)
       \<and> (fileFilter S file \<noteq> Inr True \<longrightarrow>
            route S req s
              = (Responded (res_json 400 [] (Message ''Only PDF files are allowed'')), s))
       \<and> (\<forall>cf. file_type cf = ''application/pdf'' \<longrightarrow>
            validateFile cf = (if 10 * 1024 * 1024 < file_size cf
                               then Some ''File size must be less than 10MB'' else None))"
proof -
  have r: "route S req s = upload_route S u (Some file) c objectId s"
    using auth ep by (rule upload_route_eq)
  have refused: "fileFilter S file = Inl (Error ''Only PDF files are allowed'')"
    if "fileFilter S file \<noteq> Inr True"
    using that by (simp add: fileFilter_def Let_def split: if_splits)
  have "fileFilter S file \<noteq> Inr True \<longrightarrow>
      route S req s = (Responded (res_json 400 [] (Message ''Only PDF files are allowed'')), s)"
    unfolding r using field named refused
    by (auto simp: upload_route_def upload_single_def error_middleware_def)
  moreover have "fileFilter S file = Inr True \<and> 10 * 1024 * 1024 \<le> size_of file \<longrightarrow>
      route S req s
        = (Responded (res_json 400 [] (Message ''File size must be less than 10MB'')), s)"
    unfolding r using field named
    by (auto simp: upload_route_def upload_single_def error_middleware_def fileSize_limit_def)
  moreover have "fileFilter S file = Inr True \<and> size_of file < 10 * 1024 * 1024 \<longrightarrow>
      upload_single S ''file'' (Some file) = Inr (Some file)
      \<and> route S req s = answer (upload_document S u (Some file) c objectId) s"
    unfolding r using field named
    by (auto simp: upload_route_def upload_single_def fileSize_limit_def)
  moreover have "\<forall>cf. file_type cf = ''application/pdf'' \<longrightarrow>
      validateFile cf = (if 10 * 1024 * 1024 < file_size cf
                         then Some ''File size must be less than 10MB'' else None)"
    by (simp add: validateFile_def MAX_FILE_SIZE_def ACCEPTED_FILE_TYPE_def)
  ultimately show ?thesis
    by blast
qed

text \<open>
  On the example installation a PDF of exactly 10 * 1024 * 1024 bytes is refused with the
  message of the size check, a small one passes, and an oversized text file is refused
  with the message of the PDF check; the client accepts a PDF of exactly the limit and
  refuses one byte more.
\<close>

theorem upload_size_limit_witness:
  "route example_server (upload_as as_alice exact_pdf None) (example_db, example_store)
     = (Responded (res_json 400 [] (Message ''File size must be less than 10MB'')),
        (example_db, example_store))
   \<and> upload_single example_server ''file'' (Some scan_pdf) = Inr (Some scan_pdf)
   \<and> route example_server (upload_as as_alice big_notes None) (example_db, example_store)
     = (Responded (res_json 400 [] (Message ''Only PDF files are allowed'')),
        (example_db, example_store))
   \<and> validateFile \<lparr>file_type = ''application/pdf'', file_size = 10 * 1024 * 1024\<rparr> = None
   \<and> validateFile \<lparr>file_type = ''application/pdf'', file_size = 10 * 1024 * 1024 + 1\<rparr>
       = Some ''File size must be less than 10MB''"
proof -
  have f1: "fileFilter example_server exact_pdf = Inr True"
    and f2: "fileFilter example_server scan_pdf = Inr True"
    and f3: "fileFilter example_server big_notes \<noteq> Inr True"
    by (simp_all add: fileFilter_def example_defs server_defs platform_defs)
  have n1: "fieldname exact_pdf = ''file''" "originalname exact_pdf \<noteq> []"
    and n2: "fieldname scan_pdf = ''file''" "originalname scan_pdf \<noteq> []"
    and n3: "fieldname big_notes = ''file''" "originalname big_notes \<noteq> []"
    by (simp_all add: exact_pdf_def scan_pdf_def big_notes_def)
  have s1: "10 * 1024 * 1024 \<le> size_of exact_pdf" and s2: "size_of scan_pdf < 10 * 1024 * 1024"
    by (simp_all add: size_of_def exact_pdf_def scan_pdf_def)
  note a = upload_size_limit [OF alice_uploads endpoint_upload_as n1]
  note b = upload_size_limit [OF alice_uploads endpoint_upload_as n2]
  note c = upload_size_limit [OF alice_uploads endpoint_upload_as n3]
  from a [THEN conjunct1, rule_format, OF conjI [OF f1 s1]]
    b [THEN conjunct2, THEN conjunct1, rule_format, OF conjI [OF f2 s2]]
    c [THEN conjunct2, THEN conjunct2, THEN conjunct1, rule_format, OF f3]
    a [THEN conjunct2, THEN conjunct2, THEN conjunct2, rule_format,
        of "\<lparr>file_type = ''application/pdf'', file_size = 10 * 1024 * 1024\<rparr>"]
    a [THEN conjunct2, THEN conjunct2, THEN conjunct2, rule_format,
        of "\<lparr>file_type = ''application/pdf'', file_size = 10 * 1024 * 1024 + 1\<rparr>"]
  show ?thesis
    by simp
qed

text \<open>
  C9 as it was stated fails on both of its parts. Of the files above the limit, a text file
  of 10 * 1024 * 1024 + 1 bytes is refused by the filter, which is asked first, so the
  message is \<open>Only PDF files are allowed\<close>, and the client's check answers the same; and
  a PDF of that size in a request without a token is answered with 401. Of the files of at
  most the limit, a PDF of exactly 10 * 1024 * 1024 bytes does not pass the server's size
  check: it is refused with the message of the size check.
\<close>

theorem upload_size_limit_counterexample:
  "10 * 1024 * 1024 < size_of big_notes
   \<and> route example_server (upload_as as_alice big_notes None) (example_db, example_store)
       = (Responded (res_json 400 [] (Message ''Only PDF files are allowed'')),
          (example_db, example_store))
   \<and> res_json 400 [] (Message ''Only PDF files are allowed'')
       \<noteq> res_json 400 [] (Message ''File size must be less than 10MB'')
   \<and> file_size \<lparr>file_type = ''text/plain'', file_size = 10 * 1024 * 1024 + 1\<rparr> > 10 * 1024 * 1024
   \<and> validateFile \<lparr>file_type = ''text/plain'', file_size = 10 * 1024 * 1024 + 1\<rparr>
       = Some ''Only PDF files are allowed''
   \<and> 10 * 1024 * 1024 < size_of big_pdf
   \<and> route example_server (upload_as None big_pdf None) (example_db, example_store)
       = (Responded (res_json 401 [] (Message ''Unauthorized'')), (example_db, example_store))
   \<and> size_of exact_pdf \<le> 10 * 1024 * 1024
   \<and> upload_single example_server ''file'' (Some exact_pdf)
       = Inl (MulterError ''LIMIT_FILE_SIZE'' ''File too large'')
   \<and> route example_server (upload_as as_alice exact_pdf None) (example_db, example_store)
       = (Responded (res_json 400 [] (Message ''File size must be less than 10MB'')),
          (example_db, example_store))"
  by (simp add: handler_defs io_defs example_defs server_defs platform_defs Let_def
        validateFile_def ACCEPTED_FILE_TYPE_def MAX_FILE_SIZE_def)

section \<open>Upload: the category is stored as given\<close>



section \<open>Status codes\<close>

lemma signup_status:
  "signup S t b s = (Inr r, s') \<Longrightarrow>
   status r = 201 \<or> (status r \<in> {400, 500} \<and> (\<exists>m. body r = Message m))"
  by (auto simp: signup_def io_defs res_json_def split: sum.splits prod.splits if_splits)

lemma login_status:
  "login S t b s = (Inr r, s') \<Longrightarrow>
   status r = 200 \<or> (status r \<in> {400, 401, 500} \<and> (\<exists>m. body r = Message m))"
  by (auto simp: login_def io_defs res_json_def split: sum.splits prod.splits if_splits option.splits)

lemma get_auth_user_status:
  "get_auth_user S u s = (Inr r, s') \<Longrightarrow>
   status r = 200 \<or> (status r = 500 \<and> (\<exists>m. body r = Message m))"
  by (auto simp: get_auth_user_def io_defs res_json_def split: sum.splits prod.splits if_splits)

lemma list_documents_status:
  "list_documents S u s = (Inr r, s') \<Longrightarrow>
   status r = 200 \<or> (status r = 500 \<and> (\<exists>m. body r = Message m))"
  by (auto simp: list_documents_def io_defs res_json_def split: sum.splits prod.splits if_splits)

lemma upload_document_status:
  "upload_document S u f c i s = (Inr r, s') \<Longrightarrow>
   status r = 201 \<or> (status r \<in> {400, 500} \<and> (\<exists>m. body r = Message m))"
  by (auto simp: upload_document_def io_defs res_json_def Let_def
      split: sum.splits prod.splits if_splits option.splits)

lemma pipe_stream_status:
  "pipe_stream S f hs s = (Inr r, s') \<Longrightarrow>
   status r = 200 \<or> (status r = 500 \<and> (\<exists>m. body r = Message m))"
  by (auto simp: pipe_stream_def res_json_def split: stream_outcome.splits prod.splits if_splits)

lemma download_document_status:
  "download_document S u i s = (Inr r, s') \<Longrightarrow>
   status r = 200 \<or> (status r \<in> {403, 404, 500} \<and> (\<exists>m. body r = Message m))"
  by (auto simp: download_document_def io_defs res_json_def
      split: sum.splits prod.splits if_splits option.splits dest!: pipe_stream_status)

lemma preview_document_status:
  "preview_document S u i s = (Inr r, s') \<Longrightarrow>
   status r = 200 \<or> (status r \<in> {403, 404, 500} \<and> (\<exists>m. body r = Message m))"
  by (auto simp: preview_document_def io_defs res_json_def
      split: sum.splits prod.splits if_splits option.splits dest!: pipe_stream_status)

lemma delete_document_status:
  "delete_document S u i s = (Inr r, s') \<Longrightarrow>
   status r = 200 \<or> (status r \<in> {403, 404, 500} \<and> (\<exists>m. body r = Message m))"
  by (auto simp: delete_document_def io_defs res_json_def
      split: sum.splits prod.splits if_splits option.splits)

lemma error_middleware_status:
  "error_middleware e = Responded r \<Longrightarrow> status r = 400 \<and> (\<exists>m. body r = Message m)"
  by (auto simp: error_middleware_def res_json_def split: err.splits if_splits)

lemma isAuthenticated_status:
  "isAuthenticated secret t h = Inl r \<Longrightarrow> status r = 401 \<and> (\<exists>m. body r = Message m)"
  by (auto simp: isAuthenticated_def res_json_def split: option.splits auth_header.splits)

lemma answerD: "answer h s = (Responded r, s') \<Longrightarrow> h s = (Inr r, s')"
  by (auto simp: answer_def split: prod.splits sum.splits)

text \<open>
  C8. Whatever the storage layer and the object store are, a response the routes give to
  any request has status 200 or 201, or else it is an error response: its status is one of
  400, 401, 403, 404 and 500, and its body is a JSON message.
\<close>

theorem error_statuses:
  fixes S :: "('db, 'os) services"
  assumes "route S req s = (Responded r, s')"
  shows "status r \<in> {200, 201}
       \<or> (status r \<in> {400, 401, 403, 404, 500} \<and> (\<exists>m. body r = Message m))"
proof (cases "endpoint req")
  case (POST_signup b)
  with assms show ?thesis
    by (auto simp: route_def dest!: answerD signup_status)
next
  case (POST_login b)
  with assms show ?thesis
    by (auto simp: route_def dest!: answerD login_status)
next
  case GET_logout
  with assms show ?thesis
    by (auto simp: route_def logout_def resolve_def res_json_def dest!: answerD)
next
  case GET_auth_user
  with assms show ?thesis
    by (auto simp: route_def authenticated_def split: sum.splits
        dest!: answerD get_auth_user_status isAuthenticated_status)
next
  case GET_documents
  with assms show ?thesis
    by (auto simp: route_def authenticated_def split: sum.splits
        dest!: answerD list_documents_status isAuthenticated_status)
next
  case (POST_documents_upload part c objectId)
  with assms show ?thesis
    by (auto simp: route_def authenticated_def upload_route_def split: sum.splits
        dest!: answerD upload_document_status isAuthenticated_status error_middleware_status)
next
  case (GET_documents_download ident)
  with assms show ?thesis
    by (auto simp: route_def authenticated_def split: sum.splits
        dest!: answerD download_document_status isAuthenticated_status)
next
  case (GET_documents_preview ident)
  with assms show ?thesis
    by (auto simp: route_def authenticated_def split: sum.splits
        dest!: answerD preview_document_status isAuthenticated_status)
next
  case (DELETE_documents ident)
  with assms show ?thesis
    by (auto simp: route_def authenticated_def split: sum.splits
        dest!: answerD delete_document_status isAuthenticated_status)
qed

text \<open>
  On the example installation a listing without a token is answered with 401; on the
  installation whose store refuses writes an upload is answered with 500.
\<close>

theorem error_statuses_witness:
  "fst (route example_server (get None GET_documents) (example_db, example_store))
     = Responded (res_json 401 [] (Message ''Unauthorized''))
   \<and> status (res_json 401 [] (Message ''Unauthorized'')) \<in> {400, 401, 403, 404, 500}
   \<and> fst (route broken_store (upload_as as_alice scan_pdf None) (example_db, example_store))
     = Responded (res_json 500 [] (Message ''Failed to upload document''))
   \<and> status (res_json 500 [] (Message ''Failed to upload document'')) \<in> {400, 401, 403, 404, 500}"
proof -
  have a: "route example_server (get None GET_documents) (example_db, example_store)
     = (Responded (res_json 401 [] (Message ''Unauthorized'')), (example_db, example_store))"
    by (simp add: handler_defs io_defs example_defs server_defs)
  have b: "route broken_store (upload_as as_alice scan_pdf None) (example_db, example_store)
     = (Responded (res_json 500 [] (Message ''Failed to upload document'')),
        (example_db, example_store))"
    by (simp add: handler_defs io_defs example_defs server_defs platform_defs Let_def)
  from error_statuses [OF a] error_statuses [OF b] a b show ?thesis
    by (simp add: res_json_def)
qed

section \<open>Documents change by deletion only\<close>

lemma signup_documents:
  "signup (server gen secret) t b (d, os) = (r, (d', os')) \<Longrightarrow> documents d' = documents d"
  by (auto simp: signup_def io_defs server_defs Let_def
      split: sum.splits prod.splits if_splits option.splits)

lemma login_documents:
  "login (server gen secret) t b (d, os) = (r, (d', os')) \<Longrightarrow> documents d' = documents d"
  by (auto simp: login_def io_defs server_defs Let_def
      split: sum.splits prod.splits if_splits option.splits)

lemma get_auth_user_documents:
  "get_auth_user (server gen secret) u (d, os) = (r, (d', os')) \<Longrightarrow> documents d' = documents d"
  by (auto simp: get_auth_user_def io_defs server_defs
      split: sum.splits prod.splits if_splits option.splits)

lemma list_documents_documents:
  "list_documents (server gen secret) u (d, os) = (r, (d', os')) \<Longrightarrow> documents d' = documents d"
  by (auto simp: list_documents_def io_defs server_defs
      split: sum.splits prod.splits if_splits option.splits)

lemma download_document_documents:
  "download_document (server gen secret) u i (d, os) = (r, (d', os')) \<Longrightarrow> documents d' = documents d"
  by (auto simp: download_document_def pipe_stream_def io_defs server_defs
      split: sum.splits prod.splits if_splits option.splits stream_outcome.splits)

lemma preview_document_documents:
  "preview_document (server gen secret) u i (d, os) = (r, (d', os')) \<Longrightarrow> documents d' = documents d"
  by (auto simp: preview_document_def pipe_stream_def io_defs server_defs
      split: sum.splits prod.splits if_splits option.splits stream_outcome.splits)

lemma upload_document_documents:
  "upload_document (server gen secret) u f c i (d, os) = (r, (d', os')) \<Longrightarrow>
   documents d' = documents d
   \<or> (\<exists>x. documents d' = documents d @ [x] \<and> doc_id x \<notin> doc_id ` set (documents d)
         \<and> userId x = claims_sub u)"
  by (auto simp: upload_document_def io_defs server_defs Let_def new_document_def
        insertDocumentSchema_parse_def documentData_of_def
      split: sum.splits prod.splits if_splits option.splits field.splits)

lemma answer_state: "answer h s = (out, s') \<Longrightarrow> \<exists>r. h s = (r, s')"
  by (auto simp: answer_def split: prod.splits sum.splits)

lemma route_documents:
  assumes "route (server gen secret) req (d, os) = (out, (d', os'))"
  shows "documents d' = documents d
       \<or> (\<exists>x u. isAuthenticated secret (now req) (authorization req) = Inr u
             \<and> documents d' = documents d @ [x] \<and> doc_id x \<notin> doc_id ` set (documents d)
             \<and> userId x = claims_sub u)
       \<or> (\<exists>i. endpoint req = DELETE_documents i
             \<and> documents d' = filter (\<lambda>x. doc_id x \<noteq> i) (documents d)
             \<and> out = Responded (res_json 200 [] (Message ''Document deleted successfully'')))"
proof (cases "endpoint req")
  case (POST_signup b)
  with assms show ?thesis
    by (auto simp: route_def dest!: answer_state signup_documents)
next
  case (POST_login b)
  with assms show ?thesis
    by (auto simp: route_def dest!: answer_state login_documents)
next
  case GET_logout
  with assms show ?thesis
    by (auto simp: route_def logout_def resolve_def dest!: answer_state)
next
  case GET_auth_user
  with assms show ?thesis
    by (auto simp: route_def authenticated_def server_def split: sum.splits
        dest!: answer_state get_auth_user_documents [unfolded server_def])
next
  case GET_documents
  with assms show ?thesis
    by (auto simp: route_def authenticated_def server_def split: sum.splits
        dest!: answer_state list_documents_documents [unfolded server_def])
next
  case (POST_documents_upload part c objectId)
  with assms show ?thesis
    apply (auto simp: route_def authenticated_def upload_route_def JWT_SECRET_server split: sum.splits
        dest!: answer_state)
    apply (drule upload_document_documents)
    apply auto
    done
next
  case (GET_documents_download ident)
  with assms show ?thesis
    by (auto simp: route_def authenticated_def JWT_SECRET_server split: sum.splits
        dest!: answer_state download_document_documents)
next
  case (GET_documents_preview ident)
  with assms show ?thesis
    by (auto simp: route_def authenticated_def JWT_SECRET_server split: sum.splits
        dest!: answer_state preview_document_documents)
next
  case (DELETE_documents ident)
  with assms show ?thesis
    by (auto simp: route_def authenticated_def JWT_SECRET_server delete_document_server
        split: sum.splits option.splits if_splits)
qed

text \<open>
  C6. Any request to the routes, on the storage layer modelled above. Every row of the
  documents table after the request is a row of the table before it, with every field as
  it was, or a new row whose id no row had before. And a row of the table before the
  request that is missing after it was removed by a delete request for its id that was
  answered with 200. So upload, listing, download, preview and the authentication
  endpoints leave every existing document as it is.
\<close>

theorem documents_immutable:
  assumes "route (server gen secret) req (d, os) = (out, (d', os'))"
  shows "(\<forall>x \<in> set (documents d').
            x \<in> set (documents d) \<or> doc_id x \<notin> doc_id ` set (documents d))
       \<and> (\<forall>x \<in> set (documents d). x \<notin> set (documents d') \<longrightarrow>
            endpoint req = DELETE_documents (doc_id x)
            \<and> out = Responded (res_json 200 [] (Message ''Document deleted successfully'')))"
  using route_documents [OF assms] by auto

text \<open>
  On the example installation both rows are still in the table after Alice has uploaded a
  scan, and Bob's row is still there after Alice has deleted hers.
\<close>

theorem documents_immutable_witness:
  "lab_results \<in> set (documents (fst (snd
      (route example_server (upload_as as_alice scan_pdf None) (example_db, example_store)))))
   \<and> referral_note \<in> set (documents (fst (snd
      (route example_server (upload_as as_alice scan_pdf None) (example_db, example_store)))))
   \<and> referral_note \<in> set (documents (fst (snd
      (route example_server (get as_alice (DELETE_documents ''d1'')) (example_db, example_store)))))"
proof -
  obtain o1 d1 os1 where r1:
    "route (server example_gen ''s3cret'') (upload_as as_alice scan_pdf None)
       (example_db, example_store) = (o1, (d1, os1))"
    by (metis surj_pair)
  obtain o2 d2 os2 where r2:
    "route (server example_gen ''s3cret'') (get as_alice (DELETE_documents ''d1''))
       (example_db, example_store) = (o2, (d2, os2))"
    by (metis surj_pair)
  have rows: "lab_results \<in> set (documents example_db)" "referral_note \<in> set (documents example_db)"
    by (simp_all add: example_db_def)
  have "lab_results \<in> set (documents d1)" "referral_note \<in> set (documents d1)"
    using documents_immutable [OF r1] rows
    by (auto simp: upload_as_def get_def)
  moreover have "referral_note \<in> set (documents d2)"
    using documents_immutable [OF r2] rows
    by (auto simp: get_def referral_note_def)
  ultimately show ?thesis
    using r1 r2 by (simp add: example_server_def)
qed

section \<open>Documents belong to users\<close>

lemma find_SomeD: "find P xs = Some x \<Longrightarrow> x \<in> set xs \<and> P x"
  by (induction xs) (auto split: if_splits)

lemma merge_user_id: "user_id (merge_user v u) = user_id u"
  by (simp add: merge_user_def)

lemma merged_ids:
  "map user_id (map (\<lambda>u. if user_id u = i then merge_user v u else u) us) = map user_id us"
  by (induction us) (simp_all add: merge_user_id)

lemma merged_id_set:
  "user_id ` set (map (\<lambda>u. if user_id u = i then merge_user v u else u) us) = user_id ` set us"
proof -
  have "set (map user_id (map (\<lambda>u. if user_id u = i then merge_user v u else u) us))
          = set (map user_id us)"
    by (simp only: merged_ids)
  then show ?thesis
    by (simp only: set_map)
qed

lemma upsertUser_shape:
  assumes "storage_upsertUser gen v d = (r, d')"
  shows "documents d' = documents d
       \<and> ((\<exists>e. r = Inl e \<and> users d' = users d)
          \<or> (\<exists>u. r = Inr u \<and> users d' = users d @ [u])
          \<or> (\<exists>old. r = Inr (merge_user v old) \<and> old \<in> set (users d)
                \<and> users d' = map (\<lambda>u. if user_id u = upsert_id gen v d then merge_user v u else u)
                                (users d)))"
proof -
  define d1 where "d1 = (case new_id v of Some i \<Rightarrow> d | None \<Rightarrow> d\<lparr>generated := Suc (generated d)\<rparr>)"
  have d1: "users d1 = users d" "documents d1 = documents d"
    by (simp_all add: d1_def split: option.splits)
  define clash where "clash \<longleftrightarrow> new_email v \<noteq> None
      \<and> (\<exists>u \<in> set (users d). email u = new_email v \<and> user_id u \<noteq> upsert_id gen v d)"
  have eq: "storage_upsertUser gen v d =
      (if clash then (Inl (Exception ''duplicate key value violates unique constraint''), d1)
       else (case find (\<lambda>u. user_id u = upsert_id gen v d) (users d) of
               Some old \<Rightarrow>
                 (Inr (merge_user v old),
                  d1\<lparr>users := map (\<lambda>u. if user_id u = upsert_id gen v d then merge_user v u else u)
                                 (users d)\<rparr>)
             | None \<Rightarrow>
                 (Inr \<lparr>user_id = upsert_id gen v d, email = new_email v,
                       firstName = new_firstName v, lastName = new_lastName v,
                       profileImageUrl = new_profileImageUrl v, passwordHash = new_passwordHash v,
                       user_createdAt = Some (db_now d), user_updatedAt = Some (db_now d)\<rparr>,
                  d1\<lparr>users := users d @
                     [\<lparr>user_id = upsert_id gen v d, email = new_email v,
                       firstName = new_firstName v, lastName = new_lastName v,
                       profileImageUrl = new_profileImageUrl v, passwordHash = new_passwordHash v,
                       user_createdAt = Some (db_now d), user_updatedAt = Some (db_now d)\<rparr>]\<rparr>)))"
    unfolding storage_upsertUser_def Let_def d1_def clash_def by (rule refl)
  show ?thesis
  proof (cases clash)
    case True
    with assms eq have "r = Inl (Exception ''duplicate key value violates unique constraint'')"
      and "d' = d1" by simp_all
    with d1 show ?thesis by simp
  next
    case False
    show ?thesis
    proof (cases "find (\<lambda>u. user_id u = upsert_id gen v d) (users d)")
      case None
      with False assms eq d1 show ?thesis by auto
    next
      case (Some old)
      then have "old \<in> set (users d)"
        by (auto dest: find_SomeD)
      with Some False assms eq d1 show ?thesis by auto
    qed
  qed
qed

lemma upsertUser_users:
  assumes "storage_upsertUser gen v d = (r, d')"
  shows "documents d' = documents d
       \<and> user_id ` set (users d) \<subseteq> user_id ` set (users d')
       \<and> (\<forall>usr. r = Inr usr \<longrightarrow> user_id usr \<in> user_id ` set (users d'))"
proof -
  from upsertUser_shape [OF assms] have docs: "documents d' = documents d"
    and shape: "(\<exists>e. r = Inl e \<and> users d' = users d)
          \<or> (\<exists>u. r = Inr u \<and> users d' = users d @ [u])
          \<or> (\<exists>old. r = Inr (merge_user v old) \<and> old \<in> set (users d)
                \<and> users d' = map (\<lambda>u. if user_id u = upsert_id gen v d then merge_user v u else u)
                                (users d))"
    by blast+
  from shape consider
      (failed) e where "r = Inl e" "users d' = users d"
    | (inserted) u where "r = Inr u" "users d' = users d @ [u]"
    | (updated) old where "r = Inr (merge_user v old)" "old \<in> set (users d)"
        "users d' = map (\<lambda>u. if user_id u = upsert_id gen v d then merge_user v u else u) (users d)"
    by blast
  then have "user_id ` set (users d) \<subseteq> user_id ` set (users d')
       \<and> (\<forall>usr. r = Inr usr \<longrightarrow> user_id usr \<in> user_id ` set (users d'))"
  proof cases
    case failed
    then show ?thesis by simp
  next
    case inserted
    then show ?thesis by auto
  next
    case updated
    have "user_id ` set (users d') = user_id ` set (users d)"
      unfolding updated(3) by (rule merged_id_set)
    with updated(1,2) show ?thesis
      by (simp add: merge_user_id)
  qed
  with docs show ?thesis
    by simp
qed


lemma signup_server:
  "signup (server gen secret) t b (d, os) =
     (if falsy (body_email b) \<or> falsy (body_password b)
      then (Inr (res_json 400 [] (Message ''Email and password required'')), (d, os))
      else if find (\<lambda>u. email u = Some (the (body_email b))) (users d) \<noteq> None
      then (Inr (res_json 400 [] (Message ''User already exists'')), (d, os))
      else (case storage_upsertUser gen
                   \<lparr>new_id = None, new_email = body_email b,
                    new_firstName = Some (or_empty (body_firstName b)),
                    new_lastName = Some (or_empty (body_lastName b)),
                    new_profileImageUrl = None,
                    new_passwordHash = Some (''$2b$'' @ the (body_password b))\<rparr> d of
              (Inl e, d') \<Rightarrow> (Inr (res_json 500 [] (Message ''Signup failed'')), (d', os))
            | (Inr usr, d') \<Rightarrow>
                (Inr (res_json 201 []
                   (Auth_json (generateToken secret t (user_id usr) (or_empty (email usr))) usr)),
                 (d', os))))"
  by (simp add: signup_def io_defs server_def storage_getUserByEmail_def tagged_hash_def
      split: prod.splits sum.splits)

lemma login_server:
  "login (server gen secret) t b (d, os) = (r, (d', os')) \<Longrightarrow>
   d' = d \<and> os' = os
   \<and> (\<forall>resp tok usr. r = Inr resp \<and> body resp = Auth_json tok usr \<longrightarrow>
         token_userId tok \<in> user_id ` set (users d))"
  by (auto simp: login_def io_defs server_def storage_getUserByEmail_def tagged_compare_def
        res_json_def generateToken_def
      split: prod.splits sum.splits if_splits option.splits dest!: find_SomeD)

lemma signup_users:
  assumes "signup (server gen secret) t b (d, os) = (r, (d', os'))"
  shows "documents d' = documents d
       \<and> user_id ` set (users d) \<subseteq> user_id ` set (users d')
       \<and> (\<forall>resp tok usr. r = Inr resp \<and> body resp = Auth_json tok usr \<longrightarrow>
            token_userId tok \<in> user_id ` set (users d'))"
proof -
  let ?v = "\<lparr>new_id = None, new_email = body_email b,
              new_firstName = Some (or_empty (body_firstName b)),
              new_lastName = Some (or_empty (body_lastName b)),
              new_profileImageUrl = None,
              new_passwordHash = Some (''$2b$'' @ the (body_password b))\<rparr>"
  obtain ru du where u: "storage_upsertUser gen ?v d = (ru, du)"
    by (metis surj_pair)
  note facts = upsertUser_users [OF u]
  from assms show ?thesis
    unfolding signup_server u using facts
    by (auto simp: res_json_def generateToken_def split: if_splits sum.splits)
qed


lemma get_auth_user_users:
  "get_auth_user (server gen secret) u (d, os) = (r, (d', os')) \<Longrightarrow>
   users d' = users d \<and> (\<forall>resp tok usr. r = Inr resp \<longrightarrow> body resp \<noteq> Auth_json tok usr)"
  by (auto simp: get_auth_user_def io_defs server_defs res_json_def
      split: sum.splits prod.splits if_splits option.splits)

lemma list_documents_users:
  "list_documents (server gen secret) u (d, os) = (r, (d', os')) \<Longrightarrow>
   users d' = users d \<and> (\<forall>resp tok usr. r = Inr resp \<longrightarrow> body resp \<noteq> Auth_json tok usr)"
  by (auto simp: list_documents_def io_defs server_defs res_json_def
      split: sum.splits prod.splits if_splits option.splits)

lemma upload_document_users:
  "upload_document (server gen secret) u f c i (d, os) = (r, (d', os')) \<Longrightarrow>
   users d' = users d \<and> (\<forall>resp tok usr. r = Inr resp \<longrightarrow> body resp \<noteq> Auth_json tok usr)"
  by (auto simp: upload_document_def io_defs server_defs Let_def res_json_def
      split: sum.splits prod.splits if_splits option.splits)

lemma download_document_users:
  "download_document (server gen secret) u i (d, os) = (r, (d', os')) \<Longrightarrow>
   users d' = users d \<and> (\<forall>resp tok usr. r = Inr resp \<longrightarrow> body resp \<noteq> Auth_json tok usr)"
  by (auto simp: download_document_def pipe_stream_def io_defs server_defs res_json_def
      split: sum.splits prod.splits if_splits option.splits stream_outcome.splits)

lemma preview_document_users:
  "preview_document (server gen secret) u i (d, os) = (r, (d', os')) \<Longrightarrow>
   users d' = users d \<and> (\<forall>resp tok usr. r = Inr resp \<longrightarrow> body resp \<noteq> Auth_json tok usr)"
  by (auto simp: preview_document_def pipe_stream_def io_defs server_defs res_json_def
      split: sum.splits prod.splits if_splits option.splits stream_outcome.splits)

lemma delete_document_users:
  "delete_document (server gen secret) u i (d, os) = (r, (d', os')) \<Longrightarrow>
   users d' = users d \<and> (\<forall>resp tok usr. r = Inr resp \<longrightarrow> body resp \<noteq> Auth_json tok usr)"
  by (auto simp: delete_document_def io_defs server_defs res_json_def
      split: sum.splits prod.splits if_splits option.splits)

lemma answer_cases:
  assumes "answer h s = (out, s')"
  obtains r where "h s = (Inr r, s')" "out = Responded r"
        | e where "h s = (Inl e, s')" "out = Passed_on (Error ''unhandled rejection'')"
  using assms by (auto simp: answer_def split: prod.splits sum.splits)

lemma authenticated_cases:
  assumes "authenticated S req h s = (out, s')"
  obtains r where "isAuthenticated (JWT_SECRET S) (now req) (authorization req) = Inl r"
      "out = Responded r" "s' = s"
    | u where "isAuthenticated (JWT_SECRET S) (now req) (authorization req) = Inr u"
      "h u s = (out, s')"
  using assms by (auto simp: authenticated_def split: sum.splits)

lemma issued_by_passed [simp]: "issued_by (Passed_on e) = []"
  by (simp add: issued_by_def)

lemma issued_by_error_middleware: "issued_by (error_middleware e) = []"
  by (auto simp: error_middleware_def issued_by_def res_json_def split: err.splits)

lemma issued_by_unauthenticated:
  "isAuthenticated secret t h = Inl r \<Longrightarrow> issued_by (Responded r) = []"
  by (auto simp: isAuthenticated_def issued_by_def res_json_def
      split: option.splits auth_header.splits)

lemma issued_by_Responded:
  "tok \<in> set (issued_by (Responded r)) \<longleftrightarrow> (\<exists>usr. body r = Auth_json tok usr)"
  by (cases "body r") (auto simp: issued_by_def)

lemma issued_by_other:
  "\<forall>tok usr. body r \<noteq> Auth_json tok usr \<Longrightarrow> issued_by (Responded r) = []"
  by (cases "body r") (simp_all add: issued_by_def)

lemma quiet_answer:
  assumes a: "answer h (d, os) = (out, (d', os'))"
    and q: "\<And>r. h (d, os) = (r, (d', os')) \<Longrightarrow>
        users d' = users d \<and> (\<forall>resp tok usr. r = Inr resp \<longrightarrow> body resp \<noteq> Auth_json tok usr)"
  shows "users d' = users d \<and> issued_by out = []"
  using a
proof (cases rule: answer_cases)
  case (1 r)
  from q [OF 1(1)] have "users d' = users d" and "\<forall>tok usr. body r \<noteq> Auth_json tok usr"
    by simp_all
  with 1(2) show ?thesis
    by (simp add: issued_by_other)
next
  case (2 e)
  from q [OF 2(1)] 2(2) show ?thesis
    by simp
qed

lemma quiet_route:
  assumes a: "authenticated (server gen secret) req (\<lambda>u. answer (h u)) (d, os) = (out, (d', os'))"
    and q: "\<And>u r. h u (d, os) = (r, (d', os')) \<Longrightarrow>
        users d' = users d \<and> (\<forall>resp tok usr. r = Inr resp \<longrightarrow> body resp \<noteq> Auth_json tok usr)"
  shows "users d' = users d \<and> issued_by out = []"
  using a
proof (cases rule: authenticated_cases)
  case (1 r)
  then show ?thesis
    by (simp add: issued_by_unauthenticated)
next
  case (2 u)
  show ?thesis
    by (rule quiet_answer [OF 2(2) q])
qed

lemma route_users:
  assumes "route (server gen secret) req (d, os) = (out, (d', os'))"
  shows "user_id ` set (users d) \<subseteq> user_id ` set (users d')
       \<and> (\<forall>tok \<in> set (issued_by out). token_userId tok \<in> user_id ` set (users d'))"
proof (cases "endpoint req")
  case (POST_signup b)
  with assms have "answer (signup (server gen secret) (now req) b) (d, os) = (out, (d', os'))"
    by (simp add: route_def)
  then show ?thesis
  proof (cases rule: answer_cases)
    case (1 r)
    from signup_users [OF 1(1)] 1(2) show ?thesis
      by (simp add: issued_by_Responded)
  next
    case (2 e)
    from signup_users [OF 2(1)] 2(2) show ?thesis
      by simp
  qed
next
  case (POST_login b)
  with assms have "answer (login (server gen secret) (now req) b) (d, os) = (out, (d', os'))"
    by (simp add: route_def)
  then show ?thesis
  proof (cases rule: answer_cases)
    case (1 r)
    from login_server [OF 1(1)] 1(2) show ?thesis
      by (simp add: issued_by_Responded)
  next
    case (2 e)
    from login_server [OF 2(1)] 2(2) show ?thesis
      by simp
  qed
next
  case GET_logout
  with assms show ?thesis
    by (auto simp: route_def logout_def resolve_def answer_def issued_by_def res_json_def)
next
  case GET_auth_user
  with assms have
    "authenticated (server gen secret) req (\<lambda>u. answer (get_auth_user (server gen secret) u)) (d, os)
       = (out, (d', os'))"
    by (simp add: route_def)
  from quiet_route [OF this get_auth_user_users] show ?thesis
    by simp
next
  case GET_documents
  with assms have
    "authenticated (server gen secret) req (\<lambda>u. answer (list_documents (server gen secret) u)) (d, os)
       = (out, (d', os'))"
    by (simp add: route_def)
  from quiet_route [OF this list_documents_users] show ?thesis
    by simp
next
  case (POST_documents_upload part c objectId)
  with assms have
    "authenticated (server gen secret) req (\<lambda>u. upload_route (server gen secret) u part c objectId)
       (d, os) = (out, (d', os'))"
    by (simp add: route_def)
  then have "users d' = users d \<and> issued_by out = []"
  proof (cases rule: authenticated_cases)
    case (1 r)
    then show ?thesis
      by (simp add: issued_by_unauthenticated)
  next
    case (2 u)
    show ?thesis
    proof (cases "upload_single (server gen secret) ''file'' part")
      case (Inl e)
      with 2(2) show ?thesis
        by (auto simp: upload_route_def issued_by_error_middleware)
    next
      case (Inr f)
      with 2(2) have "answer (upload_document (server gen secret) u f c objectId) (d, os)
          = (out, (d', os'))"
        by (simp add: upload_route_def)
      from quiet_answer [OF this upload_document_users] show ?thesis .
    qed
  qed
  then show ?thesis
    by simp
next
  case (GET_documents_download ident)
  with assms have
    "authenticated (server gen secret) req
       (\<lambda>u. answer (download_document (server gen secret) u ident)) (d, os) = (out, (d', os'))"
    by (simp add: route_def)
  from quiet_route [OF this download_document_users] show ?thesis
    by simp
next
  case (GET_documents_preview ident)
  with assms have
    "authenticated (server gen secret) req
       (\<lambda>u. answer (preview_document (server gen secret) u ident)) (d, os) = (out, (d', os'))"
    by (simp add: route_def)
  from quiet_route [OF this preview_document_users] show ?thesis
    by simp
next
  case (DELETE_documents ident)
  with assms have
    "authenticated (server gen secret) req
       (\<lambda>u. answer (delete_document (server gen secret) u ident)) (d, os) = (out, (d', os'))"
    by (simp add: route_def)
  from quiet_route [OF this delete_document_users] show ?thesis
    by simp
qed


lemma at_time_tables [simp]:
  "users (fst (at_time t s)) = users (fst s)" "documents (fst (at_time t s)) = documents (fst s)"
  by (simp_all add: at_time_def)

lemma run_invariant:
  assumes "honest (server gen secret) reqs (issued, (d, os))"
    and "\<forall>x \<in> set (documents d). userId x \<in> user_id ` set (users d)"
    and "\<forall>tok \<in> set issued. token_userId tok \<in> user_id ` set (users d)"
    and "run (server gen secret) reqs (issued, (d, os)) = (issued', (d', os'))"
  shows "\<forall>x \<in> set (documents d'). userId x \<in> user_id ` set (users d')"
  using assms
proof (induction reqs arbitrary: issued d os)
  case Nil
  then show ?case by simp
next
  case (Cons req reqs)
  obtain out d1 os1 where
    r: "route (server gen secret) req (at_time (now req) (d, os)) = (out, (d1, os1))"
    by (metis surj_pair)
  let ?d0 = "fst (at_time (now req) (d, os))"
  have r': "route (server gen secret) req (?d0, os) = (out, (d1, os1))"
    using r by (simp add: at_time_def)
  have tables: "users ?d0 = users d" "documents ?d0 = documents d"
    by simp_all
  from Cons.prems(1) r have presented: "presents_issued secret issued req"
    and rest: "honest (server gen secret) reqs (issued @ issued_by out, (d1, os1))"
    by (simp_all add: JWT_SECRET_server)
  from route_users [OF r'] tables have
    mono: "user_id ` set (users d) \<subseteq> user_id ` set (users d1)"
    and fresh: "\<forall>tok \<in> set (issued_by out). token_userId tok \<in> user_id ` set (users d1)"
    by simp_all
  have tokens: "\<forall>tok \<in> set (issued @ issued_by out). token_userId tok \<in> user_id ` set (users d1)"
    using Cons.prems(3) mono fresh by auto
  have docs: "\<forall>x \<in> set (documents d1). userId x \<in> user_id ` set (users d1)"
  proof
    fix x assume x: "x \<in> set (documents d1)"
    from route_documents [OF r'] tables consider
        (same) "documents d1 = documents d"
      | (added) y u where "isAuthenticated secret (now req) (authorization req) = Inr u"
          "documents d1 = documents d @ [y]" "userId y = claims_sub u"
      | (removed) i where "documents d1 = filter (\<lambda>x. doc_id x \<noteq> i) (documents d)"
      by auto
    then show "userId x \<in> user_id ` set (users d1)"
    proof cases
      case same
      with x Cons.prems(2) mono show ?thesis by auto
    next
      case added
      from isAuthenticated_bearer [OF added(1)] obtain tok where
        tok: "authorization req = Some (Bearer tok)" "signing_key tok = secret"
          "claims_sub u = token_userId tok"
        by blast
      with presented have "tok \<in> set issued"
        by (simp add: presents_issued_def)
      with Cons.prems(3) mono have "token_userId tok \<in> user_id ` set (users d1)"
        by auto
      with x added tok Cons.prems(2) mono show ?thesis by auto
    next
      case removed
      with x Cons.prems(2) mono show ?thesis by auto
    qed
  qed
  from Cons.prems(4) r have
    "run (server gen secret) reqs (issued @ issued_by out, (d1, os1)) = (issued', (d', os'))"
    by simp
  from Cons.IH [OF rest docs tokens this] show ?case .
qed


text \<open>
  C7, as amended. A run of the server from a fresh installation, on the storage layer
  modelled above, in which every token a request presents that is signed with the server's
  secret is one the server has issued at signup or login. In the state it reaches, every
  row of the documents table has a \<open>userId\<close> that is the id of a row of the users table.
  The documents table has no foreign key and the authentication does not look the user up:
  this holds because an upload takes the \<open>userId\<close> from a verified token, tokens are
  issued at signup and login for rows of the users table, and no request removes a user or
  changes a user's id.
\<close>

theorem documents_reference_users:
  assumes "honest (server gen secret) reqs ([], installed)"
    and "run (server gen secret) reqs ([], installed) = (issued, (d, os))"
  shows "\<forall>x \<in> set (documents d). \<exists>u \<in> set (users d). user_id u = userId x"
proof -
  obtain d0 os0 where i: "installed = (d0, os0)" and e: "documents d0 = []"
    by (simp add: installed_def)
  from assms have h: "honest (server gen secret) reqs ([], (d0, os0))"
    and r: "run (server gen secret) reqs ([], (d0, os0)) = (issued, (d, os))"
    by (simp_all add: i)
  have "\<forall>x \<in> set (documents d). userId x \<in> user_id ` set (users d)"
    by (rule run_invariant [OF h _ _ r]) (simp_all add: e)
  then show ?thesis
    by force
qed

text \<open>
  Carol signs up on a fresh example installation and uploads a scan with the token she was
  given: the run is honest, and the one document belongs to the one user.
\<close>

theorem documents_reference_users_witness:
  "honest example_server carol_run ([], installed)
   \<and> map userId (documents (fst (snd (run example_server carol_run ([], installed))))) = [''id-'']
   \<and> (\<exists>u \<in> set (users (fst (snd (run example_server carol_run ([], installed))))).
         user_id u = ''id-'')"
proof -
  let ?tok = "Token ''s3cret'' ''id-'' ''carol@example.org'' 10 604810"
  let ?carol = "\<lparr>user_id = ''id-'', email = Some ''carol@example.org'', firstName = Some ''Carol'',
      lastName = Some [], profileImageUrl = None, passwordHash = Some ''$2b$pw-c'',
      user_createdAt = Some 10, user_updatedAt = Some 10\<rparr>"
  let ?doc = "\<lparr>filename = ''o1.pdf'', originalFilename = ''scan.PDF'', filepath = ''uploads/o1.pdf'',
      filesize = 4, mimetype = ''application/pdf'', category = ''other'', userId = ''id-'',
      doc_id = ''id-i'', createdAt = 20\<rparr>"
  let ?s1 = "(\<lparr>users = [?carol], documents = [], generated = Suc 0, db_now = 10\<rparr>,
      (\<lambda>x. None) :: object_store)"
  let ?s2 = "(\<lparr>users = [?carol], documents = [?doc], generated = 2, db_now = 20\<rparr>,
      [''uploads/o1.pdf'' \<mapsto> \<lparr>data = [37, 80, 68, 70], contentType = ''application/pdf'',
         acl = Some \<lparr>owner = ''id-'', visibility = ''private''\<rparr>\<rparr>] :: object_store)"
  let ?r1 = "\<lparr>authorization = None, now = 10, endpoint = POST_signup carol\<rparr>"
  let ?r2 = "\<lparr>authorization = Some (Bearer ?tok), now = 20,
       endpoint = POST_documents_upload (Some scan_pdf) None ''o1''\<rparr>"
  have s1: "route example_server ?r1 (at_time 10 installed)
      = (Responded (res_json 201 [] (Auth_json ?tok ?carol)), ?s1)"
    by (simp add: handler_defs io_defs example_defs server_defs platform_defs installed_def
          at_time_def Let_def JWT_EXPIRY_def)
  have s2: "route example_server ?r2 (at_time 20 ?s1)
      = (Responded (res_json 201 [] (Document_json ?doc)), ?s2)"
    by (simp add: handler_defs io_defs example_defs server_defs platform_defs new_document_def
          at_time_def Let_def)
  have i1: "issued_by (Responded (res_json 201 [] (Auth_json ?tok ?carol))) = [?tok]"
    and i2: "issued_by (Responded (res_json 201 [] (Document_json ?doc))) = []"
    by (simp_all add: issued_by_def res_json_def)
  have run: "run example_server carol_run ([], installed) = ([?tok], ?s2)"
    unfolding carol_run_def by (simp add: s1 s2 i1 i2)
  have secret: "JWT_SECRET example_server = ''s3cret''"
    by (simp add: example_server_def server_def)
  have honest: "honest example_server carol_run ([], installed)"
    unfolding carol_run_def by (simp add: s1 s2 i1 i2 secret presents_issued_def)
  from documents_reference_users [OF honest [unfolded example_server_def]
      run [unfolded example_server_def]]
  have "\<exists>u \<in> set (users (fst ?s2)). user_id u = userId ?doc"
    by simp
  then have "\<exists>u \<in> set (users (fst ?s2)). user_id u = ''id-''"
    by simp
  with honest run show ?thesis
    by simp
qed

text \<open>
  C7 as it was stated, for every state the requests can reach, fails: on an installation
  that signs with the fallback secret, one upload with a token signed with that secret for
  the user id \<open>ghost\<close> leaves a document of that owner in a database without users. The
  token was not issued by the server, so the run is not an honest one.
\<close>

theorem documents_reference_users_counterexample:
  "JWT_SECRET unconfigured_server = ''your-secret-key-change-in-production''
   \<and> map userId (documents (fst (snd (run unconfigured_server ghost_run ([], installed)))))
       = [''ghost'']
   \<and> users (fst (snd (run unconfigured_server ghost_run ([], installed)))) = []
   \<and> \<not> honest unconfigured_server ghost_run ([], installed)"
  by (simp add: handler_defs io_defs example_defs server_defs platform_defs new_document_def
        installed_def at_time_def Let_def presents_issued_def)

end
